theory Spec2Isabelle
  imports Complex_Main "HOL-Library.Multiset"
begin

section \<open>Strings and numbers of the host language\<close>

text \<open>
  A string of the program is a sequence of UTF-16 code units; every character the program
  names lies in the basic plane, so a code unit is a code point. Keywords written in ASCII
  in the source are given as \<open>asc ''...''\<close>, all others by their code units.
\<close>

type_synonym jstring = "nat list"

definition asc :: "string \<Rightarrow> jstring" where
  "asc s = map of_char s"

definition is_digit :: "nat \<Rightarrow> bool" where
  "is_digit c = (48 \<le> c \<and> c \<le> 57)"

text \<open>White space and line terminators: what \<open>\s\<close> matches and \<open>trim\<close> removes.\<close>

definition is_ws :: "nat \<Rightarrow> bool" where
  "is_ws c = (c = 0x09 \<or> c = 0x0A \<or> c = 0x0B \<or> c = 0x0C \<or> c = 0x0D \<or> c = 0x20 \<or> c = 0xA0
     \<or> c = 0x1680 \<or> (0x2000 \<le> c \<and> c \<le> 0x200A) \<or> c = 0x2028 \<or> c = 0x2029 \<or> c = 0x202F
     \<or> c = 0x205F \<or> c = 0x3000 \<or> c = 0xFEFF)"

definition trim :: "jstring \<Rightarrow> jstring" where
  "trim s = rev (dropWhile is_ws (rev (dropWhile is_ws s)))"

fun startsWith :: "jstring \<Rightarrow> jstring \<Rightarrow> bool" where
  "startsWith s [] = True"
| "startsWith [] (p # ps) = False"
| "startsWith (c # cs) (p # ps) = (c = p \<and> startsWith cs ps)"

definition endsWith :: "jstring \<Rightarrow> jstring \<Rightarrow> bool" where
  "endsWith s p = startsWith (rev s) (rev p)"

fun includes_s :: "jstring \<Rightarrow> jstring \<Rightarrow> bool" where
  "includes_s [] p = (p = [])"
| "includes_s (c # cs) p = (startsWith (c # cs) p \<or> includes_s cs p)"

text \<open>
  \<open>split\<close> on a one-character separator class: the pieces between the matches, an empty
  string giving one empty piece.
\<close>

fun split :: "(nat \<Rightarrow> bool) \<Rightarrow> jstring \<Rightarrow> jstring list" where
  "split sep [] = [[]]"
| "split sep (c # cs) =
     (if sep c then [] # split sep cs
      else (case split sep cs of p # ps \<Rightarrow> (c # p) # ps | [] \<Rightarrow> [[c]]))"

text \<open>
  A number is a finite value, an infinity or NaN. Finite values are kept exact, as
  rationals: rounding to binary64, overflow and the sign of zero are not modelled.
\<close>

datatype jsnum = Fin rat | PInf | NInf | NaN

fun isNaN :: "jsnum \<Rightarrow> bool" where
  "isNaN NaN = True"
| "isNaN _ = False"

fun Math_abs :: "jsnum \<Rightarrow> jsnum" where
  "Math_abs (Fin q) = Fin \<bar>q\<bar>"
| "Math_abs PInf = PInf"
| "Math_abs NInf = PInf"
| "Math_abs NaN = NaN"

text \<open>Division of a number by the literal 100.\<close>

fun div100 :: "jsnum \<Rightarrow> jsnum" where
  "div100 (Fin q) = Fin (q / 100)"
| "div100 x = x"

definition digits_val :: "jstring \<Rightarrow> nat" where
  "digits_val ds = foldl (\<lambda>a c. 10 * a + (c - 48)) 0 ds"

text \<open>An optional leading sign: whether it is a minus, and the rest.\<close>

fun splitSign :: "jstring \<Rightarrow> bool \<times> jstring" where
  "splitSign [] = (False, [])"
| "splitSign (c # t) =
     (if c = 0x2D then (True, t) else if c = 0x2B then (False, t) else (False, c # t))"

text \<open>
  The exponent part \<open>e\<close> or \<open>E\<close>, an optional sign and digits; without digits there is
  no exponent part and the literal ends before the letter.
\<close>

fun exponentPart :: "jstring \<Rightarrow> int" where
  "exponentPart [] = 0"
| "exponentPart (c # t) =
     (if c = 0x65 \<or> c = 0x45 then
        (let (neg, r) = splitSign t; ds = takeWhile is_digit r
         in if ds = [] then 0 else if neg then - int (digits_val ds) else int (digits_val ds))
      else 0)"

definition scale10 :: "rat \<Rightarrow> int \<Rightarrow> rat" where
  "scale10 m e = (if 0 \<le> e then m * 10 ^ nat e else m / 10 ^ nat (- e))"

text \<open>
  \<open>parseFloat\<close>: skip leading white space, then read the longest prefix that is a decimal
  literal (sign, \<open>Infinity\<close> or digits with an optional fraction and exponent); NaN when
  there is none.
\<close>

definition parseFloat :: "jstring \<Rightarrow> jsnum" where
  "parseFloat str =
     (let (neg, r) = splitSign (dropWhile is_ws str) in
      if startsWith r (asc ''Infinity'') then (if neg then NInf else PInf)
      else
        let ip = takeWhile is_digit r;
            r1 = dropWhile is_digit r;
            (fp, r2) = (case r1 of
                          [] \<Rightarrow> ([], r1)
                        | c # t \<Rightarrow> if c = 0x2E then (takeWhile is_digit t, dropWhile is_digit t)
                                   else ([], r1))
        in if ip = [] \<and> fp = [] then NaN
           else
             let m = of_nat (digits_val ip) + of_nat (digits_val fp) / 10 ^ length fp;
                 q = scale10 m (exponentPart r2)
             in Fin (if neg then - q else q))"

text \<open>
  \<open>parseInt\<close> in base 10: leading white space, a sign, then the digits; NaN is
  \<open>None\<close>. The hexadecimal prefix is left out: the program applies \<open>parseInt\<close> to year
  keys only, which are four decimal digits.
\<close>

definition parseInt :: "jstring \<Rightarrow> int option" where
  "parseInt str =
     (let (neg, r) = splitSign (dropWhile is_ws str); ds = takeWhile is_digit r
      in if ds = [] then None
         else Some (if neg then - int (digits_val ds) else int (digits_val ds)))"

section \<open>Cell values\<close>

text \<open>
  A cell as the sheet reader hands it over (number, string, boolean), the value
  \<open>undefined\<close> read at an index past the end of a row, and \<open>null\<close> and plain objects,
  which \<open>cleanNumber\<close> accepts as well. With the options of the call the reader
  yields no object (dates come as numbers); \<open>String\<close> of a plain object is
  \<open>[object Object]\<close>.
\<close>

datatype jsval = VNum jsnum | VStr jstring | VBool bool | VNull | VUndefined | VObj

fun truthy :: "jsval \<Rightarrow> bool" where
  "truthy (VNum (Fin q)) = (q \<noteq> 0)"
| "truthy (VNum NaN) = False"
| "truthy (VNum _) = True"
| "truthy (VStr s) = (s \<noteq> [])"
| "truthy (VBool b) = b"
| "truthy VNull = False"
| "truthy VUndefined = False"
| "truthy VObj = True"

text \<open>Decimal digits of a natural number.\<close>

fun natToString :: "nat \<Rightarrow> jstring" where
  "natToString n = (if n < 10 then [48 + n] else natToString (n div 10) @ [48 + n mod 10])"

declare natToString.simps [simp del]

text \<open>The digits after the decimal point of a fraction in \<open>[0, 1)\<close>, at most \<open>k\<close> of them.\<close>

fun fracDigits :: "nat \<Rightarrow> rat \<Rightarrow> jstring" where
  "fracDigits 0 f = []"
| "fracDigits (Suc k) f =
     (if f = 0 then []
      else (let d = nat \<lfloor>f * 10\<rfloor> in (48 + d) # fracDigits k (f * 10 - of_nat d)))"

text \<open>
  \<open>String(n)\<close> for a number: the decimal expansion of the exact value. It agrees with the
  program on integers and short decimals of ordinary size; exponent notation for very large
  and very small magnitudes and the shortest round-trip digits of binary64 are not modelled.
\<close>

definition ratToString :: "rat \<Rightarrow> jstring" where
  "ratToString q =
     (let n = nat \<lfloor>q\<rfloor>; f = q - of_nat n
      in natToString n @ (if f = 0 then [] else 0x2E # fracDigits 17 f))"

fun numToString :: "jsnum \<Rightarrow> jstring" where
  "numToString (Fin q) = (if q < 0 then 0x2D # ratToString (- q) else ratToString q)"
| "numToString PInf = asc ''Infinity''"
| "numToString NInf = asc ''-Infinity''"
| "numToString NaN = asc ''NaN''"

fun toStr :: "jsval \<Rightarrow> jstring" where
  "toStr (VStr s) = s"
| "toStr (VNum n) = numToString n"
| "toStr (VBool b) = (if b then asc ''true'' else asc ''false'')"
| "toStr VNull = asc ''null''"
| "toStr VUndefined = asc ''undefined''"
| "toStr VObj = asc ''[object Object]''"

section \<open>Value normalizer\<close>

text \<open>The characters \<open>cleanNumber\<close> deletes: currency signs, comma, white space.\<close>

definition is_noise :: "nat \<Rightarrow> bool" where
  "is_noise c = (c = 0xA5 \<or> c = 0x24 \<or> c = 0xA3 \<or> c = 0x20AC \<or> c = 0x2C \<or> is_ws c
     \<or> c = 0xFEFF \<or> c = 0xA0)"

text \<open>\<open>v.slice(1, -1)\<close>: without the first and the last code unit.\<close>

definition slice_1_m1 :: "jstring \<Rightarrow> jstring" where
  "slice_1_m1 v = butlast (tl v)"

definition cleanString :: "jstring \<Rightarrow> jsnum" where
  "cleanString val =
     (let v0 = trim (filter (\<lambda>c. \<not> is_noise c) val);
          v = (if startsWith v0 [0x28] \<and> endsWith v0 [0x29] then 0x2D # slice_1_m1 v0 else v0)
      in if endsWith v [0x25] then div100 (parseFloat v)
         else if v = [0x2D] \<or> v = [0x2014] \<or> v = [] then Fin 0
         else (let parsed = parseFloat v in if isNaN parsed then Fin 0 else parsed))"

fun cleanNumber :: "jsval \<Rightarrow> jsnum" where
  "cleanNumber (VNum n) = n"
| "cleanNumber (VStr s) = cleanString s"
| "cleanNumber _ = Fin 0"

section \<open>Composition parser\<close>

record BusinessCompositionItem =
  name :: jstring
  val :: jsnum

definition is_semicolon :: "nat \<Rightarrow> bool" where
  "is_semicolon c = (c = 0x3B \<or> c = 0xFF1B)"

definition is_colon :: "nat \<Rightarrow> bool" where
  "is_colon c = (c = 0x3A \<or> c = 0xFF1A)"

text \<open>One fragment: an item, or \<open>None\<close> for the \<open>null\<close> that the filter drops.\<close>

definition parseFragment :: "jstring \<Rightarrow> BusinessCompositionItem option" where
  "parseFragment s =
     (case split is_colon s of
        p0 # p1 # _ \<Rightarrow>
          (let nm = trim p0; value = cleanNumber (VStr p1)
           in if nm \<noteq> [] \<and> \<not> isNaN value then Some \<lparr>name = nm, val = value\<rparr> else None)
      | _ \<Rightarrow> None)"

definition parseBusinessComposition :: "jstring \<Rightarrow> BusinessCompositionItem list" where
  "parseBusinessComposition str =
     (if str = [] then [] else List.map_filter parseFragment (split is_semicolon str))"

section \<open>Metric rule table and metric identifier\<close>

datatype key = Revenue | NetProfitParent | TotalAssets | EquityParent | OperatingCashFlow
  | Capex | CostOfRevenue | SalesExpenses | ManagementExpenses | FinancialExpenses
  | ResearchExpenses | TaxExpenses | BusinessComposition

record rule =
  positive :: "jstring list"
  negative :: "jstring list"

definition revenue_rule :: rule where
  "revenue_rule = \<lparr>positive =
      [[0x8425, 0x4E1A, 0x603B, 0x6536, 0x5165], [0x8425, 0x4E1A, 0x6536, 0x5165],
       asc ''Total Revenue'', asc ''Operating Revenue'', asc ''Revenue'',
       asc ''Main Business Income'', [0x8425, 0x6536],
       [0x4E3B, 0x8425, 0x4E1A, 0x52A1, 0x6536, 0x5165]],
    negative =
      [[0x6210, 0x672C], asc ''Cost'', asc ''Expense'', [0x8D39, 0x7528],
       [0x589E, 0x957F, 0x7387], asc ''Growth'', asc ''Cash'', [0x73B0, 0x91D1], [0x7A0E],
       asc ''Tax'', [0x7387], asc ''Ratio'']\<rparr>"

definition netProfitParent_rule :: rule where
  "netProfitParent_rule = \<lparr>positive =
      [
       [0x5F52, 0x5C5E, 0x4E8E, 0x6BCD, 0x516C, 0x53F8, 0x6240, 0x6709, 0x8005, 0x7684, 0x51C0, 0x5229, 0x6DA6],
       [0x5F52, 0x5C5E, 0x4E8E, 0x6BCD, 0x516C, 0x53F8, 0x80A1, 0x4E1C, 0x7684, 0x51C0, 0x5229, 0x6DA6],
       [0x5F52, 0x6BCD, 0x51C0, 0x5229, 0x6DA6], asc ''Net Profit Attributable to Owners'',
       asc ''Net Income Attributable'', asc ''Net Profit Parent'',
       [0x5F52, 0x5C5E, 0x4E8E, 0x4E0A, 0x5E02, 0x516C, 0x53F8, 0x80A1, 0x4E1C, 0x7684, 0x51C0, 0x5229, 0x6DA6]],
    negative =
      [[0x6263, 0x975E], asc ''Non-recurring'', [0x7A0E, 0x524D], asc ''Before Tax'',
       [0x589E, 0x957F, 0x7387], asc ''Growth'', asc ''Rate'', [0x7387]]\<rparr>"

definition totalAssets_rule :: rule where
  "totalAssets_rule = \<lparr>positive =
      [[0x8D44, 0x4EA7, 0x603B, 0x8BA1], [0x8D44, 0x4EA7, 0x603B, 0x989D], asc ''Total Assets'',
       [0x603B, 0x8D44, 0x4EA7]],
    negative =
      [[0x5E73, 0x5747], asc ''Average'', [0x51C0, 0x8D44, 0x4EA7], asc ''Net Assets'',
       [0x6D41, 0x52A8], asc ''Current'', [0x975E, 0x6D41, 0x52A8], asc ''Non-current'',
       [0x5468, 0x8F6C], asc ''Turnover'', [0x6536, 0x76CA], asc ''Return'', [0x589E, 0x957F],
       asc ''Growth'', asc ''Depreciation'', [0x6298, 0x65E7], [0x7387], asc ''Ratio'']\<rparr>"

definition equityParent_rule :: rule where
  "equityParent_rule = \<lparr>positive =
      [[0x5F52, 0x5C5E, 0x4E8E, 0x6BCD, 0x516C, 0x53F8, 0x6240, 0x6709, 0x8005, 0x6743, 0x76CA],
       [0x5F52, 0x5C5E, 0x4E8E, 0x6BCD, 0x516C, 0x53F8, 0x80A1, 0x4E1C, 0x6743, 0x76CA],
       [0x5F52, 0x6BCD, 0x6743, 0x76CA],
       [0x5F52, 0x5C5E, 0x4E8E, 0x6BCD, 0x516C, 0x53F8, 0x80A1, 0x4E1C, 0x7684, 0x6743, 0x76CA],
       asc ''Total Equity Attributable to Owners'', asc ''Equity Attributable to Parent'',
       [0x5F52, 0x5C5E, 0x4E8E, 0x4E0A, 0x5E02, 0x516C, 0x53F8, 0x80A1, 0x4E1C, 0x7684, 0x6240, 0x6709, 0x8005, 0x6743, 0x76CA],
       [0x80A1, 0x4E1C, 0x6743, 0x76CA, 0x5408, 0x8BA1],
       [0x6240, 0x6709, 0x8005, 0x6743, 0x76CA, 0x5408, 0x8BA1], asc ''Total Equity''],
    negative =
      [[0x5C11, 0x6570], asc ''Minority'', [0x5E73, 0x5747], asc ''Average'', [0x589E, 0x957F],
       asc ''Growth'', [0x7387], asc ''Ratio'', [0x8D1F, 0x503A], asc ''Liabilities'']\<rparr>"

definition operatingCashFlow_rule :: rule where
  "operatingCashFlow_rule = \<lparr>positive =
      [
       [0x7ECF, 0x8425, 0x6D3B, 0x52A8, 0x4EA7, 0x751F, 0x7684, 0x73B0, 0x91D1, 0x6D41, 0x91CF, 0x51C0, 0x989D],
       [0x7ECF, 0x8425, 0x6D3B, 0x52A8, 0x73B0, 0x91D1, 0x6D41, 0x91CF, 0x51C0, 0x989D],
       [0x7ECF, 0x8425, 0x6D3B, 0x52A8, 0x51C0, 0x73B0, 0x91D1, 0x6D41],
       asc ''Net Cash Flow from Operating Activities'', asc ''Net Cash from Operating'',
       asc ''Operating Cash Flow'', asc ''OCF'', [0x7ECF, 0x8425, 0x73B0, 0x91D1, 0x6D41],
       [0x7ECF, 0x8425, 0x6027, 0x73B0, 0x91D1, 0x6D41]],
    negative =
      [[0x6295, 0x8D44], asc ''Investing'', [0x7B79, 0x8D44], asc ''Financing'',
       [0x589E, 0x957F], asc ''Growth'', [0x7387], asc ''Ratio'']\<rparr>"

definition capex_rule :: rule where
  "capex_rule = \<lparr>positive =
      [[0x8D2D, 0x5EFA, 0x56FA, 0x5B9A, 0x8D44, 0x4EA7],
       [0x8D2D, 0x5EFA, 0x56FA, 0x5B9A, 0x8D44, 0x4EA7, 0x3001, 0x65E0, 0x5F62, 0x8D44, 0x4EA7, 0x548C, 0x5176, 0x4ED6, 0x957F, 0x671F, 0x8D44, 0x4EA7, 0x652F, 0x4ED8, 0x7684, 0x73B0, 0x91D1],
       asc ''Capital Expenditure'', asc ''Capex'', asc ''Capital Spending'',
       asc ''Purchase of Property'', [0x8D44, 0x672C, 0x5F00, 0x652F],
       [0x8D44, 0x672C, 0x6027, 0x652F, 0x51FA]],
    negative =
      [asc ''Ratio'', [0x7387]]\<rparr>"

definition costOfRevenue_rule :: rule where
  "costOfRevenue_rule = \<lparr>positive =
      [[0x8425, 0x4E1A, 0x6210, 0x672C], [0x8425, 0x4E1A, 0x603B, 0x6210, 0x672C],
       asc ''Cost of Revenue'', asc ''Operating Cost'', asc ''Cost of Sales'',
       [0x4E3B, 0x8425, 0x4E1A, 0x52A1, 0x6210, 0x672C]],
    negative =
      [[0x7387], asc ''Ratio'', asc ''Growth'', [0x589E, 0x957F]]\<rparr>"

definition salesExpenses_rule :: rule where
  "salesExpenses_rule = \<lparr>positive =
      [[0x9500, 0x552E, 0x8D39, 0x7528], asc ''Selling Expenses'', asc ''Distribution Costs'',
       asc ''Marketing Expenses''],
    negative =
      [[0x7387], asc ''Ratio'']\<rparr>"

definition managementExpenses_rule :: rule where
  "managementExpenses_rule = \<lparr>positive =
      [[0x7BA1, 0x7406, 0x8D39, 0x7528], asc ''Management Expenses'',
       asc ''Administrative Expenses'', asc ''General and Administrative''],
    negative =
      [[0x7387], asc ''Ratio'']\<rparr>"

definition financialExpenses_rule :: rule where
  "financialExpenses_rule = \<lparr>positive =
      [[0x8D22, 0x52A1, 0x8D39, 0x7528], asc ''Financial Expenses'', asc ''Finance Costs'',
       asc ''Interest Expense''],
    negative =
      [[0x7387], asc ''Ratio'']\<rparr>"

definition researchExpenses_rule :: rule where
  "researchExpenses_rule = \<lparr>positive =
      [[0x7814, 0x53D1, 0x8D39, 0x7528], asc ''Research and Development'', asc ''R&D''],
    negative =
      [[0x7387], asc ''Ratio'']\<rparr>"

definition taxExpenses_rule :: rule where
  "taxExpenses_rule = \<lparr>positive =
      [[0x6240, 0x5F97, 0x7A0E, 0x8D39, 0x7528], [0x6240, 0x5F97, 0x7A0E],
       asc ''Income Tax Expenses'', asc ''Income Tax''],
    negative =
      [[0x9012, 0x5EF6], asc ''Deferred'', asc ''Payable'', [0x5E94, 0x4EA4], [0x7387],
       asc ''Ratio'']\<rparr>"

definition METRIC_RULES :: "(key \<times> rule) list" where
  "METRIC_RULES =
     [(Revenue, revenue_rule),
      (NetProfitParent, netProfitParent_rule),
      (TotalAssets, totalAssets_rule),
      (EquityParent, equityParent_rule),
      (OperatingCashFlow, operatingCashFlow_rule),
      (Capex, capex_rule),
      (CostOfRevenue, costOfRevenue_rule),
      (SalesExpenses, salesExpenses_rule),
      (ManagementExpenses, managementExpenses_rule),
      (FinancialExpenses, financialExpenses_rule),
      (ResearchExpenses, researchExpenses_rule),
      (TaxExpenses, taxExpenses_rule)]"

text \<open>
  The entries of the table are visited in the order they are written. A metric with a
  negative keyword in the label is skipped; the first of the others with a positive keyword
  in the label is returned.
\<close>

fun firstMatch :: "(key \<times> rule) list \<Rightarrow> jstring \<Rightarrow> key option" where
  "firstMatch [] cleanStr = None"
| "firstMatch ((k, rules) # rest) cleanStr =
     (if list_ex (includes_s cleanStr) (negative rules) then firstMatch rest cleanStr
      else if list_ex (includes_s cleanStr) (positive rules) then Some k
      else firstMatch rest cleanStr)"

definition compositionZh :: jstring where
  "compositionZh = [0x4E3B, 0x8425, 0x4E1A, 0x52A1, 0x6784, 0x6210]"

definition identifyMetric :: "(key \<times> rule) list \<Rightarrow> jstring \<Rightarrow> key option" where
  "identifyMetric table str =
     (if str = [] then None
      else
        let cleanStr = trim str
        in if includes_s cleanStr compositionZh \<or> includes_s cleanStr (asc ''Business Composition'')
           then Some BusinessComposition
           else firstMatch table cleanStr)"


section \<open>Year records and the partial-record map\<close>

text \<open>
  One record type serves for the partial records and for the result: a field that is
  \<open>undefined\<close> in the program is \<open>None\<close>.
\<close>

record FinancialYearData =
  year :: jstring
  revenue :: "jsnum option"
  netProfitParent :: "jsnum option"
  totalAssets :: "jsnum option"
  equityParent :: "jsnum option"
  operatingCashFlow :: "jsnum option"
  capex :: "jsnum option"
  costOfRevenue :: "jsnum option"
  salesExpenses :: "jsnum option"
  managementExpenses :: "jsnum option"
  financialExpenses :: "jsnum option"
  researchExpenses :: "jsnum option"
  taxExpenses :: "jsnum option"
  businessComposition :: "BusinessCompositionItem list"

text \<open>The object literal \<open>{ year, businessComposition: [] }\<close>.\<close>

definition newRecord :: "jstring \<Rightarrow> FinancialYearData" where
  "newRecord y = \<lparr>year = y, revenue = None, netProfitParent = None, totalAssets = None,
     equityParent = None, operatingCashFlow = None, capex = None, costOfRevenue = None,
     salesExpenses = None, managementExpenses = None, financialExpenses = None,
     researchExpenses = None, taxExpenses = None, businessComposition = []\<rparr>"

text \<open>
  The assignment \<open>record[key] = v\<close> for a metric key. Both extractors exclude the
  composition marker before they assign, so its equation is never used.
\<close>

fun setMetric :: "key \<Rightarrow> jsnum \<Rightarrow> FinancialYearData \<Rightarrow> FinancialYearData" where
  "setMetric Revenue v d = d\<lparr>revenue := Some v\<rparr>"
| "setMetric NetProfitParent v d = d\<lparr>netProfitParent := Some v\<rparr>"
| "setMetric TotalAssets v d = d\<lparr>totalAssets := Some v\<rparr>"
| "setMetric EquityParent v d = d\<lparr>equityParent := Some v\<rparr>"
| "setMetric OperatingCashFlow v d = d\<lparr>operatingCashFlow := Some v\<rparr>"
| "setMetric Capex v d = d\<lparr>capex := Some v\<rparr>"
| "setMetric CostOfRevenue v d = d\<lparr>costOfRevenue := Some v\<rparr>"
| "setMetric SalesExpenses v d = d\<lparr>salesExpenses := Some v\<rparr>"
| "setMetric ManagementExpenses v d = d\<lparr>managementExpenses := Some v\<rparr>"
| "setMetric FinancialExpenses v d = d\<lparr>financialExpenses := Some v\<rparr>"
| "setMetric ResearchExpenses v d = d\<lparr>researchExpenses := Some v\<rparr>"
| "setMetric TaxExpenses v d = d\<lparr>taxExpenses := Some v\<rparr>"
| "setMetric BusinessComposition v d = d"

text \<open>The two branches on \<open>capex\<close>: its absolute value is stored.\<close>

definition storeValue :: "key \<Rightarrow> jsnum \<Rightarrow> FinancialYearData \<Rightarrow> FinancialYearData" where
  "storeValue k v d = (if k = Capex then setMetric k (Math_abs v) d else setMetric k v d)"

text \<open>
  The map from year to partial record, as the list of its entries in insertion order;
  assigning to a year that is present keeps its place.
\<close>

type_synonym yearDataMap = "(jstring \<times> FinancialYearData) list"

definition ensureYear :: "jstring \<Rightarrow> yearDataMap \<Rightarrow> yearDataMap" where
  "ensureYear y m = (if map_of m y = None then m @ [(y, newRecord y)] else m)"

definition updateYear ::
  "jstring \<Rightarrow> (FinancialYearData \<Rightarrow> FinancialYearData) \<Rightarrow> yearDataMap \<Rightarrow> yearDataMap" where
  "updateYear y f m = map (\<lambda>(k, d). if k = y then (k, f d) else (k, d)) m"

section \<open>Sheets and orientation detection\<close>

text \<open>
  A sheet is the list of its rows as \<open>sheet_to_json\<close> returns them with \<open>header: 1\<close>:
  every row is an array of cells, so the test \<open>Array.isArray(row)\<close> of the loops
  never fails and has no branch here.
\<close>

type_synonym row = "jsval list"
type_synonym sheet = "row list"

text \<open>\<open>row[i]\<close>: \<open>undefined\<close> past the end of the row.\<close>

definition cell_at :: "row \<Rightarrow> nat \<Rightarrow> jsval" where
  "cell_at r i = (if i < length r then r ! i else VUndefined)"

text \<open>The test \<open>/^(20\d{2}|19\d{2})/\<close>.\<close>

fun yearLike :: "jstring \<Rightarrow> bool" where
  "yearLike (a # b # c # d # _) =
     (((a = 0x32 \<and> b = 0x30) \<or> (a = 0x31 \<and> b = 0x39)) \<and> is_digit c \<and> is_digit d)"
| "yearLike _ = False"

datatype strategy = HORIZONTAL | VERTICAL

text \<open>
  The detection loop from row \<open>r\<close> on: the first row with two year cells is a horizontal
  header, the first with three cells that \<open>identifyMetric\<close> accepts a vertical one, the
  year test coming first in each row.
\<close>

fun detectFrom :: "(key \<times> rule) list \<Rightarrow> nat \<Rightarrow> sheet \<Rightarrow> (strategy \<times> nat) option" where
  "detectFrom table r [] = None"
| "detectFrom table r (row # rest) =
     (let yearCount = length (filter (\<lambda>cell. yearLike (trim (toStr cell))) row)
      in if 2 \<le> yearCount then Some (HORIZONTAL, r)
         else
           let rowStr = map (\<lambda>c. trim (toStr c)) row;
               keywordMatchCount = length (filter (\<lambda>cell. identifyMetric table cell \<noteq> None) rowStr)
           in if 3 \<le> keywordMatchCount then Some (VERTICAL, r)
              else detectFrom table (Suc r) rest)"

definition detectStrategy :: "(key \<times> rule) list \<Rightarrow> sheet \<Rightarrow> (strategy \<times> nat) option" where
  "detectStrategy table rows = detectFrom table 0 (take 30 rows)"

section \<open>Horizontal extractor\<close>

text \<open>The leftmost match of \<open>/(\d{4})/\<close>.\<close>

fun match4 :: "jstring \<Rightarrow> jstring option" where
  "match4 (a # b # c # d # rest) =
     (if is_digit a \<and> is_digit b \<and> is_digit c \<and> is_digit d then Some [a, b, c, d]
      else match4 (b # c # d # rest))"
| "match4 _ = None"

definition headerYear :: "jsval \<Rightarrow> jstring option" where
  "headerYear cell =
     (let cellStr = trim (toStr cell)
      in case match4 cellStr of
           None \<Rightarrow> None
         | Some y \<Rightarrow> if includes_s cellStr (asc ''20'') \<or> includes_s cellStr (asc ''19'')
                     then Some y else None)"

definition yearColMap :: "row \<Rightarrow> (nat \<times> jstring) list" where
  "yearColMap headerRow =
     List.map_filter (\<lambda>(idx, cell). map_option (Pair idx) (headerYear cell))
       (enumerate 0 headerRow)"

definition horizontalWrite ::
  "key \<Rightarrow> row \<Rightarrow> nat \<times> jstring \<Rightarrow> yearDataMap \<Rightarrow> yearDataMap" where
  "horizontalWrite matchedKey r entry m =
     (case entry of (colIdx, y) \<Rightarrow>
        updateYear y (storeValue matchedKey (cleanNumber (cell_at r colIdx))) (ensureYear y m))"

text \<open>The label \<open>String(row[0] || row[1] || '').trim()\<close>.\<close>

definition rowLabel :: "row \<Rightarrow> jstring" where
  "rowLabel r =
     trim (toStr (if truthy (cell_at r 0) then cell_at r 0
                  else if truthy (cell_at r 1) then cell_at r 1 else VStr []))"

definition horizontalRow ::
  "(key \<times> rule) list \<Rightarrow> (nat \<times> jstring) list \<Rightarrow> row \<Rightarrow> yearDataMap \<Rightarrow> yearDataMap" where
  "horizontalRow table ycm r m =
     (case identifyMetric table (rowLabel r) of
        None \<Rightarrow> m
      | Some matchedKey \<Rightarrow>
          if matchedKey \<noteq> BusinessComposition then fold (horizontalWrite matchedKey r) ycm m
          else m)"

definition extractHorizontal ::
  "(key \<times> rule) list \<Rightarrow> sheet \<Rightarrow> nat \<Rightarrow> yearDataMap \<Rightarrow> yearDataMap" where
  "extractHorizontal table rows headerRowIndex m =
     (case drop headerRowIndex rows of
        [] \<Rightarrow> m
      | headerRow # dataRows \<Rightarrow> fold (horizontalRow table (yearColMap headerRow)) dataRows m)"

section \<open>Vertical extractor\<close>

definition metricColMap :: "(key \<times> rule) list \<Rightarrow> row \<Rightarrow> (nat \<times> key) list" where
  "metricColMap table headerRow =
     List.map_filter
       (\<lambda>(idx, cell). map_option (Pair idx) (identifyMetric table (trim (toStr cell))))
       (enumerate 0 headerRow)"

text \<open>The match of \<open>/^(\d{4})/\<close>.\<close>

fun yearMatch :: "jstring \<Rightarrow> jstring option" where
  "yearMatch (a # b # c # d # _) =
     (if is_digit a \<and> is_digit b \<and> is_digit c \<and> is_digit d then Some [a, b, c, d] else None)"
| "yearMatch _ = None"

definition verticalWrite ::
  "jstring \<Rightarrow> row \<Rightarrow> nat \<times> key \<Rightarrow> yearDataMap \<Rightarrow> yearDataMap" where
  "verticalWrite y r entry m =
     (case entry of (colIdx, metricKey) \<Rightarrow>
        let rawVal = cell_at r colIdx
        in if metricKey = BusinessComposition
           then updateYear y
                  (\<lambda>d. d\<lparr>businessComposition := parseBusinessComposition (toStr rawVal)\<rparr>) m
           else updateYear y (storeValue metricKey (cleanNumber rawVal)) m)"

definition verticalRow :: "(nat \<times> key) list \<Rightarrow> row \<Rightarrow> yearDataMap \<Rightarrow> yearDataMap" where
  "verticalRow mcm r m =
     (case yearMatch (trim (toStr (cell_at r 0))) of
        None \<Rightarrow> m
      | Some y \<Rightarrow> fold (verticalWrite y r) mcm (ensureYear y m))"

definition extractVertical ::
  "(key \<times> rule) list \<Rightarrow> sheet \<Rightarrow> nat \<Rightarrow> yearDataMap \<Rightarrow> yearDataMap" where
  "extractVertical table rows headerRowIndex m =
     (case drop headerRowIndex rows of
        [] \<Rightarrow> m
      | headerRow # dataRows \<Rightarrow> fold (verticalRow (metricColMap table headerRow)) dataRows m)"

section \<open>Sheets, files and the finalizer\<close>

definition processSheet :: "(key \<times> rule) list \<Rightarrow> sheet \<Rightarrow> yearDataMap \<Rightarrow> yearDataMap" where
  "processSheet table rows m =
     (if rows = [] then m
      else case detectStrategy table rows of
             None \<Rightarrow> m
           | Some (HORIZONTAL, h) \<Rightarrow> extractHorizontal table rows h m
           | Some (VERTICAL, h) \<Rightarrow> extractVertical table rows h m)"

text \<open>
  A file: its name and what reading it gives, the message of the exception thrown or the
  rows of its sheets in workbook order.
\<close>

record File =
  file_name :: jstring
  file_read :: "jstring + sheet list"

fun processFiles :: "(key \<times> rule) list \<Rightarrow> File list \<Rightarrow> yearDataMap \<Rightarrow> jstring + yearDataMap" where
  "processFiles table [] m = Inr m"
| "processFiles table (f # fs) m =
     (case file_read f of
        Inl msg \<Rightarrow> Inl (asc ''Failed to parse file: '' @ file_name f @ asc '' - '' @ msg)
      | Inr sheets \<Rightarrow> processFiles table fs (fold (processSheet table) sheets m))"

text \<open>
  \<open>Object.values\<close>: the entries whose key is an array index come first, in ascending
  numeric order, then the others in insertion order.
\<close>

definition isArrayIndex :: "jstring \<Rightarrow> bool" where
  "isArrayIndex k = (k \<noteq> [] \<and> list_all is_digit k \<and> (k = [48] \<or> hd k \<noteq> 48)
     \<and> digits_val k < 2 ^ 32 - 1)"

definition objectValues :: "yearDataMap \<Rightarrow> FinancialYearData list" where
  "objectValues m =
     map snd (sort_key (\<lambda>e. digits_val (fst e)) (filter (\<lambda>e. isArrayIndex (fst e)) m)
              @ filter (\<lambda>e. \<not> isArrayIndex (fst e)) m)"

definition survives :: "FinancialYearData \<Rightarrow> bool" where
  "survives d = (year d \<noteq> []
     \<and> (revenue d \<noteq> None \<or> netProfitParent d \<noteq> None \<or> totalAssets d \<noteq> None))"

definition fillDefaults :: "FinancialYearData \<Rightarrow> FinancialYearData" where
  "fillDefaults d =
     (let d1 = (if revenue d = None then d\<lparr>revenue := Some (Fin 0)\<rparr> else d);
          d2 = (if netProfitParent d1 = None then d1\<lparr>netProfitParent := Some (Fin 0)\<rparr> else d1);
          d3 = (if totalAssets d2 = None then d2\<lparr>totalAssets := Some (Fin 0)\<rparr> else d2)
      in if equityParent d3 = None then d3\<lparr>equityParent := Some (Fin 0)\<rparr> else d3)"

text \<open>
  The comparator \<open>parseInt(a.year) - parseInt(b.year)\<close>; a NaN result counts as zero
  for the sort.
\<close>

definition yearCompare :: "FinancialYearData \<Rightarrow> FinancialYearData \<Rightarrow> int" where
  "yearCompare a b =
     (case (parseInt (year a), parseInt (year b)) of
        (Some x, Some y) \<Rightarrow> x - y
      | _ \<Rightarrow> 0)"

text \<open>The array sort with a comparator, as a stable insertion sort.\<close>

fun insertBy :: "('a \<Rightarrow> 'a \<Rightarrow> int) \<Rightarrow> 'a \<Rightarrow> 'a list \<Rightarrow> 'a list" where
  "insertBy cmp x [] = [x]"
| "insertBy cmp x (y # ys) = (if cmp x y \<le> 0 then x # y # ys else y # insertBy cmp x ys)"

definition sortBy :: "('a \<Rightarrow> 'a \<Rightarrow> int) \<Rightarrow> 'a list \<Rightarrow> 'a list" where
  "sortBy cmp xs = foldr (insertBy cmp) xs []"

definition finalize :: "yearDataMap \<Rightarrow> FinancialYearData list" where
  "finalize m =
     (let result = map fillDefaults (filter survives (objectValues m))
      in if result = [] then [] else sortBy yearCompare result)"

text \<open>
  The rule table is the module's only top-level binding, and no function assigns to it.
  A call takes the module state and returns it with its result; the partial-record map
  starts empty in every call.
\<close>

record module_state =
  rule_table :: "(key \<times> rule) list"

definition initial_state :: module_state where
  "initial_state = \<lparr>rule_table = METRIC_RULES\<rparr>"

definition extractFinancialData ::
  "module_state \<Rightarrow> File list \<Rightarrow> (jstring + FinancialYearData list) \<times> module_state" where
  "extractFinancialData st files =
     (let yearDataMap = []
      in case processFiles (rule_table st) files yearDataMap of
           Inl e \<Rightarrow> (Inl e, st)
         | Inr m \<Rightarrow> (Inr (finalize m), st))"

section \<open>Inputs of the scenarios\<close>

text \<open>A file with one sheet that reads without error.\<close>

definition bookOf :: "sheet \<Rightarrow> File" where
  "bookOf rows = \<lparr>file_name = asc ''book.xlsx'', file_read = Inr [rows]\<rparr>"

text \<open>
  Scenario A, years as columns: the header cell U+9879 U+76EE and the years 2021 and 2022,
  then the rows of operating revenue (U+8425 U+4E1A U+6536 U+5165) and of total assets
  (U+8D44 U+4EA7 U+603B U+8BA1).
\<close>

definition scenarioA :: sheet where
  "scenarioA =
     [[VStr ([0x9879, 0x76EE]), VStr (asc ''2021''), VStr (asc ''2022'')],
      [VStr ([0x8425, 0x4E1A, 0x6536, 0x5165]), VStr (asc ''1000''), VStr (asc ''1200'')],
      [VStr ([0x8D44, 0x4EA7, 0x603B, 0x8BA1]), VStr (asc ''5000''), VStr (asc ''5500'')]]"

definition mapA :: yearDataMap where
  "mapA =
     [(asc ''2021'',
       (newRecord (asc ''2021''))\<lparr>revenue := Some (Fin 1000), totalAssets := Some (Fin 5000)\<rparr>),
      (asc ''2022'',
       (newRecord (asc ''2022''))\<lparr>revenue := Some (Fin 1200), totalAssets := Some (Fin 5500)\<rparr>)]"

definition resultA :: "FinancialYearData list" where
  "resultA =
     [\<lparr>year = asc ''2021'', revenue = Some (Fin 1000), netProfitParent = Some (Fin 0),
       totalAssets = Some (Fin 5000), equityParent = Some (Fin 0), operatingCashFlow = None,
       capex = None, costOfRevenue = None, salesExpenses = None, managementExpenses = None,
       financialExpenses = None, researchExpenses = None, taxExpenses = None,
       businessComposition = []\<rparr>,
      \<lparr>year = asc ''2022'', revenue = Some (Fin 1200), netProfitParent = Some (Fin 0),
       totalAssets = Some (Fin 5500), equityParent = Some (Fin 0), operatingCashFlow = None,
       capex = None, costOfRevenue = None, salesExpenses = None, managementExpenses = None,
       financialExpenses = None, researchExpenses = None, taxExpenses = None,
       businessComposition = []\<rparr>]"

text \<open>
  Scenario B, years as rows: the header cells are the year label (U+5E74 U+4EFD), operating
  revenue and net profit attributable to the owners of the parent; the rows are the years
  2020 and 2021.
\<close>

definition scenarioB :: sheet where
  "scenarioB =
     [[VStr ([0x5E74, 0x4EFD]), VStr ([0x8425, 0x4E1A, 0x6536, 0x5165]),
       VStr ([0x5F52, 0x5C5E, 0x4E8E, 0x6BCD, 0x516C, 0x53F8, 0x6240, 0x6709, 0x8005, 0x7684, 0x51C0, 0x5229, 0x6DA6])],
      [VStr (asc ''2020''), VStr (asc ''800''), VStr (asc ''80'')],
      [VStr (asc ''2021''), VStr (asc ''900''), VStr (asc ''95'')]]"

text \<open>The records the scenario is expected to give.\<close>

definition expectedB :: "FinancialYearData list" where
  "expectedB =
     [(newRecord (asc ''2020''))\<lparr>revenue := Some (Fin 800), netProfitParent := Some (Fin 80),
        totalAssets := Some (Fin 0), equityParent := Some (Fin 0)\<rparr>,
      (newRecord (asc ''2021''))\<lparr>revenue := Some (Fin 900), netProfitParent := Some (Fin 95),
        totalAssets := Some (Fin 0), equityParent := Some (Fin 0)\<rparr>]"

text \<open>Scenario B with a third metric column, selling expenses (U+9500 U+552E U+8D39 U+7528).\<close>

definition scenarioB3 :: sheet where
  "scenarioB3 =
     [[VStr ([0x5E74, 0x4EFD]), VStr ([0x8425, 0x4E1A, 0x6536, 0x5165]),
       VStr ([0x5F52, 0x5C5E, 0x4E8E, 0x6BCD, 0x516C, 0x53F8, 0x6240, 0x6709, 0x8005, 0x7684, 0x51C0, 0x5229, 0x6DA6]),
       VStr ([0x9500, 0x552E, 0x8D39, 0x7528])],
      [VStr (asc ''2020''), VStr (asc ''800''), VStr (asc ''80''), VStr (asc ''10'')],
      [VStr (asc ''2021''), VStr (asc ''900''), VStr (asc ''95''), VStr (asc ''12'')]]"

definition mapB3 :: yearDataMap where
  "mapB3 =
     [(asc ''2020'',
       (newRecord (asc ''2020''))\<lparr>revenue := Some (Fin 800), netProfitParent := Some (Fin 80),
         salesExpenses := Some (Fin 10)\<rparr>),
      (asc ''2021'',
       (newRecord (asc ''2021''))\<lparr>revenue := Some (Fin 900), netProfitParent := Some (Fin 95),
         salesExpenses := Some (Fin 12)\<rparr>)]"

definition resultB3 :: "FinancialYearData list" where
  "resultB3 =
     [(newRecord (asc ''2020''))\<lparr>revenue := Some (Fin 800), netProfitParent := Some (Fin 80),
        totalAssets := Some (Fin 0), equityParent := Some (Fin 0),
        salesExpenses := Some (Fin 10)\<rparr>,
      (newRecord (asc ''2021''))\<lparr>revenue := Some (Fin 900), netProfitParent := Some (Fin 95),
        totalAssets := Some (Fin 0), equityParent := Some (Fin 0),
        salesExpenses := Some (Fin 12)\<rparr>]"

text \<open>
  Header rows for the orientation detector: a subject label (U+79D1 U+76EE) and three years;
  the year label, operating revenue, plain net profit (U+51C0 U+5229 U+6DA6) and total assets
  (U+603B U+8D44 U+4EA7); and the same with net profit attributable to the parent in its
  short form (U+5F52 U+6BCD U+51C0 U+5229 U+6DA6).
\<close>

definition headerYears :: row where
  "headerYears = [VStr ([0x79D1, 0x76EE]), VStr (asc ''2020''), VStr (asc ''2021''),
  VStr (asc ''2022'')]"

definition headerMetrics :: row where
  "headerMetrics =
     [VStr ([0x5E74, 0x4EFD]), VStr ([0x8425, 0x4E1A, 0x6536, 0x5165]), VStr ([0x51C0, 0x5229,
      0x6DA6]), VStr ([0x603B, 0x8D44, 0x4EA7])]"

definition headerMetrics3 :: row where
  "headerMetrics3 =
     [VStr ([0x5E74, 0x4EFD]), VStr ([0x8425, 0x4E1A, 0x6536, 0x5165]),
      VStr ([0x5F52, 0x6BCD, 0x51C0,
      0x5229, 0x6DA6]), VStr ([0x603B, 0x8D44, 0x4EA7])]"

text \<open>
  A sheet with years as columns whose capital-expenditure row (U+8D44 U+672C U+5F00 U+652F)
  holds a lone percent sign and a negative amount.
\<close>

definition capexSheet :: sheet where
  "capexSheet =
     [[VStr ([0x9879, 0x76EE]), VStr (asc ''2021''), VStr (asc ''2022'')],
      [VStr ([0x8425, 0x4E1A, 0x6536, 0x5165]), VStr (asc ''1000''), VStr (asc ''1200'')],
      [VStr ([0x8D44, 0x672C, 0x5F00, 0x652F]), VStr (asc ''%''), VStr (asc ''-50'')]]"

definition capexMap :: yearDataMap where
  "capexMap =
     [(asc ''2021'',
       (newRecord (asc ''2021''))\<lparr>revenue := Some (Fin 1000), capex := Some NaN\<rparr>),
      (asc ''2022'',
       (newRecord (asc ''2022''))\<lparr>revenue := Some (Fin 1200), capex := Some (Fin 50)\<rparr>)]"

definition capexResult :: "FinancialYearData list" where
  "capexResult =
     [(newRecord (asc ''2021''))\<lparr>revenue := Some (Fin 1000), netProfitParent := Some (Fin 0),
        totalAssets := Some (Fin 0), equityParent := Some (Fin 0), capex := Some NaN\<rparr>,
      (newRecord (asc ''2022''))\<lparr>revenue := Some (Fin 1200), netProfitParent := Some (Fin 0),
        totalAssets := Some (Fin 0), equityParent := Some (Fin 0), capex := Some (Fin 50)\<rparr>]"

text \<open>
  Sheets with years as rows and a composition column: the header is the year label,
  operating revenue, total assets and the composition phrase (U+4E3B U+8425 U+4E1A U+52A1
  U+6784 U+6210). The first sheet gives two segments for 2020; the row of the second has a
  number in the composition column.
\<close>

definition compHeader :: row where
  "compHeader =
     [VStr ([0x5E74, 0x4EFD]), VStr ([0x8425, 0x4E1A, 0x6536, 0x5165]),
      VStr ([0x8D44, 0x4EA7, 0x603B,
      0x8BA1]), VStr ([0x4E3B, 0x8425, 0x4E1A, 0x52A1, 0x6784, 0x6210])]"

definition compRow1 :: row where
  "compRow1 = [VStr (asc ''2020''), VStr (asc ''800''), VStr (asc ''5000''),
     VStr (asc ''A:100; B:200'')]"

definition compRow2 :: row where
  "compRow2 = [VStr (asc ''2020''), VStr (asc ''900''), VStr (asc ''5500''), VNum (Fin 7)]"

definition compCols :: "(nat \<times> key) list" where
  "compCols = [(1, Revenue), (2, TotalAssets), (3, BusinessComposition)]"

definition compRecord1 :: FinancialYearData where
  "compRecord1 = (newRecord (asc ''2020''))\<lparr>revenue := Some (Fin 800),
     totalAssets := Some (Fin 5000),
     businessComposition := [\<lparr>name = asc ''A'', val = Fin 100\<rparr>,
       \<lparr>name = asc ''B'', val = Fin 200\<rparr>]\<rparr>"

definition compRecord2 :: FinancialYearData where
  "compRecord2 = (newRecord (asc ''2020''))\<lparr>revenue := Some (Fin 900),
     totalAssets := Some (Fin 5500)\<rparr>"

section \<open>Decimal literals\<close>




section \<open>Labels\<close>

text \<open>
  The keywords for operating revenue (U+8425 U+4E1A U+6536 U+5165) and for growth rate
  (U+589E U+957F U+7387), a label made of the two, and the first between blanks.
\<close>

definition kwOperatingRevenue :: jstring where
  "kwOperatingRevenue = [0x8425, 0x4E1A, 0x6536, 0x5165]"

definition kwGrowthRate :: jstring where
  "kwGrowthRate = [0x589E, 0x957F, 0x7387]"

definition labelRevenueGrowth :: jstring where
  "labelRevenueGrowth = kwOperatingRevenue @ kwGrowthRate"

definition labelRevenue :: jstring where
  "labelRevenue = 0x20 # kwOperatingRevenue @ [0x20]"

text \<open>A label made of the composition phrase followed by the keyword for operating revenue.\<close>

definition labelCompositionRevenue :: jstring where
  "labelCompositionRevenue = compositionZh @ kwOperatingRevenue"

section \<open>What the finalizer is to establish\<close>

definition fourDigits :: "jstring \<Rightarrow> bool" where
  "fourDigits k = (length k = 4 \<and> list_all is_digit k)"

text \<open>The numeric year of a record (zero for a year that is no number).\<close>

definition yearNumber :: "FinancialYearData \<Rightarrow> int" where
  "yearNumber d = (case parseInt (year d) of Some n \<Rightarrow> n | None \<Rightarrow> 0)"

text \<open>A record with at least one of revenue, net profit and total assets defined.\<close>

definition hasCore :: "FinancialYearData \<Rightarrow> bool" where
  "hasCore d = (revenue d \<noteq> None \<or> netProfitParent d \<noteq> None \<or> totalAssets d \<noteq> None)"

definition orZero :: "jsnum option \<Rightarrow> jsnum option" where
  "orZero x = (case x of None \<Rightarrow> Some (Fin 0) | Some v \<Rightarrow> Some v)"

text \<open>
  \<open>r\<close> is \<open>d\<close> with its defaults: the four core metrics are zero where \<open>d\<close> has
  none, every other field is as in \<open>d\<close>.
\<close>

definition defaulted :: "FinancialYearData \<Rightarrow> FinancialYearData \<Rightarrow> bool" where
  "defaulted d r =
     (year r = year d \<and> revenue r = orZero (revenue d)
      \<and> netProfitParent r = orZero (netProfitParent d)
      \<and> totalAssets r = orZero (totalAssets d) \<and> equityParent r = orZero (equityParent d)
      \<and> operatingCashFlow r = operatingCashFlow d \<and> capex r = capex d
      \<and> costOfRevenue r = costOfRevenue d \<and> salesExpenses r = salesExpenses d
      \<and> managementExpenses r = managementExpenses d
      \<and> financialExpenses r = financialExpenses d
      \<and> researchExpenses r = researchExpenses d \<and> taxExpenses r = taxExpenses d
      \<and> businessComposition r = businessComposition d)"

text \<open>
  A partial-record map in an order that is not the order of the years: 2022 with revenue,
  1999 with equity only, 2021 with total assets and capital expenditure, 0999 with capital
  expenditure only.
\<close>

definition mixedMap :: yearDataMap where
  "mixedMap =
     [(asc ''2022'', (newRecord (asc ''2022''))\<lparr>revenue := Some (Fin 5)\<rparr>),
      (asc ''1999'', (newRecord (asc ''1999''))\<lparr>equityParent := Some (Fin 2)\<rparr>),
      (asc ''2021'',
       (newRecord (asc ''2021''))\<lparr>totalAssets := Some (Fin 7), capex := Some (Fin 3)\<rparr>),
      (asc ''0999'', (newRecord (asc ''0999''))\<lparr>capex := Some (Fin 1)\<rparr>)]"

definition mixedResult :: "FinancialYearData list" where
  "mixedResult =
     [(newRecord (asc ''2021''))\<lparr>revenue := Some (Fin 0), netProfitParent := Some (Fin 0),
        totalAssets := Some (Fin 7), equityParent := Some (Fin 0), capex := Some (Fin 3)\<rparr>,
      (newRecord (asc ''2022''))\<lparr>revenue := Some (Fin 5), netProfitParent := Some (Fin 0),
        totalAssets := Some (Fin 0), equityParent := Some (Fin 0)\<rparr>]"

section \<open>The effect of one cell of a data row\<close>

text \<open>
  What one assignment of the vertical extractor does to the record of the row's year: the
  two branches of the callback, as a function on the record.
\<close>

definition cellEffect :: "row \<Rightarrow> nat \<times> key \<Rightarrow> FinancialYearData \<Rightarrow> FinancialYearData" where
  "cellEffect r entry d =
     (if snd entry = BusinessComposition
      then d\<lparr>businessComposition := parseBusinessComposition (toStr (cell_at r (fst entry)))\<rparr>
      else storeValue (snd entry) (cleanNumber (cell_at r (fst entry))) d)"

section \<open>The range of a stored capital expenditure\<close>

fun nonNegative :: "jsnum \<Rightarrow> bool" where
  "nonNegative (Fin q) = (0 \<le> q)"
| "nonNegative PInf = True"
| "nonNegative NInf = False"
| "nonNegative NaN = False"

definition capexRange :: "FinancialYearData \<Rightarrow> bool" where
  "capexRange d = (case capex d of None \<Rightarrow> True | Some v \<Rightarrow> v = NaN \<or> nonNegative v)"

section \<open>Evaluation rules\<close>

lemmas str_defs = asc_def is_digit_def is_ws_def trim_def endsWith_def

lemmas num_defs = digits_val_def scale10_def parseFloat_def parseInt_def cleanString_def
  is_noise_def slice_1_m1_def

lemmas METRIC_RULES_eval = METRIC_RULES_def [unfolded revenue_rule_def netProfitParent_rule_def
  totalAssets_rule_def equityParent_rule_def operatingCashFlow_rule_def capex_rule_def
  costOfRevenue_rule_def salesExpenses_rule_def managementExpenses_rule_def
  financialExpenses_rule_def researchExpenses_rule_def taxExpenses_rule_def asc_def, simplified]

lemmas extract_defs = identifyMetric_def compositionZh_def detectStrategy_def headerYear_def
  yearColMap_def horizontalWrite_def rowLabel_def horizontalRow_def extractHorizontal_def
  metricColMap_def verticalWrite_def verticalRow_def extractVertical_def processSheet_def
  cell_at_def ensureYear_def updateYear_def newRecord_def storeValue_def
  List.map_filter_simps enumerate_simps

lemmas final_defs = isArrayIndex_def objectValues_def survives_def fillDefaults_def
  yearCompare_def sortBy_def finalize_def

lemmas call_simps = extractFinancialData_def initial_state_def module_state.simps Let_def
  sum.case fst_conv snd_conv

section \<open>Value normalizer: the percentage branch\<close>

lemma cleanNumber_other: "(\<forall>s. v \<noteq> VStr s) \<Longrightarrow> (\<forall>n. v \<noteq> VNum n) \<Longrightarrow> cleanNumber v = Fin 0"
  by (cases v) simp_all

lemma cleanString_NaN_percent:
  assumes "isNaN (cleanString s)"
  shows "endsWith (trim (filter (\<lambda>c. \<not> is_noise c) s)) [0x25]
    \<or> (startsWith (trim (filter (\<lambda>c. \<not> is_noise c) s)) [0x28]
        \<and> endsWith (trim (filter (\<lambda>c. \<not> is_noise c) s)) [0x29]
        \<and> endsWith (0x2D # slice_1_m1 (trim (filter (\<lambda>c. \<not> is_noise c) s))) [0x25])"
  using assms by (auto simp: cleanString_def Let_def split: if_splits)

text \<open>
  C3. The normalizer returns a number for every cell, zero for a cell that is neither a
  string nor a number (\<open>cleanNumber_other\<close>), and zero for a string that fails to parse
  on the ordinary path. On the percentage branch the parsed prefix is divided by 100 without
  the NaN check of the ordinary path: for a string that ends in a percent sign and has no
  numeric prefix the result is NaN, where the claim says zero. Only that branch gives NaN
  for a string (\<open>cleanString_NaN_percent\<close>).
\<close>

theorem cleanNumber_percent_NaN:
  "cleanNumber (VStr (asc ''abc%'')) = NaN \<and> cleanNumber (VStr (asc ''%'')) = NaN
   \<and> cleanNumber (VStr (asc ''abc'')) = Fin 0"
  by (simp add: str_defs num_defs)

section \<open>Value normalizer: decimal literals\<close>

lemma digit_not_ws: "is_digit c \<Longrightarrow> \<not> is_ws c"
  by (auto simp: is_digit_def is_ws_def)









lemma splitSign_digit: "s \<noteq> [] \<Longrightarrow> is_digit (hd s) \<Longrightarrow> splitSign s = (False, s)"
  by (cases s) (auto simp: is_digit_def)














section \<open>Metric identifier: revenue and its negative keywords\<close>

lemma startsWith_iff: "startsWith s p = (\<exists>v. s = p @ v)"
  by (induction s p rule: startsWith.induct) auto

lemma includes_iff: "includes_s s p = (\<exists>u v. s = u @ p @ v)"
proof (induction s)
  case Nil
  then show ?case by auto
next
  case (Cons c cs)
  show ?case
  proof
    assume "includes_s (c # cs) p"
    then consider "startsWith (c # cs) p" | "includes_s cs p" by auto
    then show "\<exists>u v. c # cs = u @ p @ v"
    proof cases
      case 1
      then obtain v where "c # cs = p @ v" by (auto simp: startsWith_iff)
      then have "c # cs = [] @ p @ v" by simp
      then show ?thesis by blast
    next
      case 2
      with Cons.IH obtain u v where "cs = u @ p @ v" by blast
      then have "c # cs = (c # u) @ p @ v" by simp
      then show ?thesis by blast
    qed
  next
    assume "\<exists>u v. c # cs = u @ p @ v"
    then obtain u v where e: "c # cs = u @ p @ v" by blast
    show "includes_s (c # cs) p"
    proof (cases u)
      case Nil
      with e have "startsWith (c # cs) p" by (auto simp: startsWith_iff)
      then show ?thesis by simp
    next
      case (Cons a u')
      with e have "cs = u' @ p @ v" by simp
      with Cons.IH have "includes_s cs p" by blast
      then show ?thesis by simp
    qed
  qed
qed

lemma includes_nonempty: "includes_s s p \<Longrightarrow> p \<noteq> [] \<Longrightarrow> s \<noteq> []"
  by (auto simp: includes_iff)

lemma includes_trans: "includes_s s p \<Longrightarrow> includes_s p q \<Longrightarrow> includes_s s q"
proof -
  assume "includes_s s p" "includes_s p q"
  then obtain u v u' v' where "s = u @ p @ v" "p = u' @ q @ v'" by (auto simp: includes_iff)
  then have "s = (u @ u') @ q @ (v' @ v)" by simp
  then show ?thesis unfolding includes_iff by blast
qed

lemma includes_rev: "includes_s (rev s) (rev p) = includes_s s p"
proof -
  have "includes_s s p \<Longrightarrow> includes_s (rev s) (rev p)" for s p
  proof -
    assume "includes_s s p"
    then obtain u v where "s = u @ p @ v" by (auto simp: includes_iff)
    then have "rev s = rev v @ rev p @ rev u" by simp
    then show ?thesis unfolding includes_iff by blast
  qed
  from this [of s p] this [of "rev s" "rev p"] show ?thesis by auto
qed

lemma includes_dropWhile:
  "p \<noteq> [] \<Longrightarrow> \<not> is_ws (hd p) \<Longrightarrow> includes_s (dropWhile is_ws s) p = includes_s s p"
proof (induction s)
  case Nil
  then show ?case by simp
next
  case (Cons c cs)
  show ?case
  proof (cases "is_ws c")
    case True
    with Cons.prems have "\<not> startsWith (c # cs) p" by (cases p) auto
    with True Cons show ?thesis by simp
  next
    case False
    then show ?thesis by simp
  qed
qed

lemma includes_trim:
  assumes "p \<noteq> []" "\<not> is_ws (hd p)" "\<not> is_ws (last p)"
  shows "includes_s (trim s) p = includes_s s p"
proof -
  have "includes_s (trim s) p = includes_s (dropWhile is_ws (rev (dropWhile is_ws s))) (rev p)"
    unfolding trim_def using includes_rev [of "rev (dropWhile is_ws (rev (dropWhile is_ws s)))" p]
    by simp
  also have "\<dots> = includes_s (rev (dropWhile is_ws s)) (rev p)"
    using assms by (intro includes_dropWhile) (simp_all add: hd_rev)
  also have "\<dots> = includes_s (dropWhile is_ws s) p" by (rule includes_rev)
  also have "\<dots> = includes_s s p" using assms by (intro includes_dropWhile)
  finally show ?thesis .
qed

lemma trim_part: "\<exists>u v. s = u @ trim s @ v"
proof -
  let ?d = "dropWhile is_ws s"
  have "trim s @ rev (takeWhile is_ws (rev ?d))
      = rev (takeWhile is_ws (rev ?d) @ dropWhile is_ws (rev ?d))"
    by (simp only: trim_def rev_append)
  also have "\<dots> = rev (rev ?d)" by (simp only: takeWhile_dropWhile_id)
  finally have "?d = trim s @ rev (takeWhile is_ws (rev ?d))" by simp
  moreover have "s = takeWhile is_ws s @ ?d" by simp
  ultimately have "s = takeWhile is_ws s @ trim s @ rev (takeWhile is_ws (rev ?d))" by simp
  then show ?thesis by blast
qed

lemma includes_trim_part: "includes_s (trim s) p \<Longrightarrow> includes_s s p"
proof -
  assume "includes_s (trim s) p"
  moreover have "includes_s s (trim s)" using trim_part [of s] by (simp add: includes_iff)
  ultimately show ?thesis by (blast intro: includes_trans)
qed

lemma rate_in_every_rule: "includes_s c [0x7387] \<Longrightarrow> firstMatch METRIC_RULES c = None"
  by (simp add: METRIC_RULES_eval)

lemma revenue_first:
  assumes "\<not> list_ex (includes_s c) (negative revenue_rule)"
    and "includes_s c kwOperatingRevenue"
  shows "firstMatch METRIC_RULES c = Some Revenue"
proof -
  have "kwOperatingRevenue \<in> set (positive revenue_rule)"
    by (simp add: kwOperatingRevenue_def revenue_rule_def)
  with assms(2) have "list_ex (includes_s c) (positive revenue_rule)"
    unfolding list_ex_iff by blast
  with assms(1) show ?thesis by (simp add: METRIC_RULES_def)
qed

lemma no_negative_after_trim:
  "\<not> list_ex (includes_s s) ns \<Longrightarrow> \<not> list_ex (includes_s (trim s)) ns"
  unfolding list_ex_iff by (blast dest: includes_trim_part)

lemma composition_first:
  assumes "includes_s label compositionZh \<or> includes_s label (asc ''Business Composition'')"
  shows "identifyMetric METRIC_RULES label = Some BusinessComposition"
proof -
  have z: "compositionZh \<noteq> []" "\<not> is_ws (hd compositionZh)" "\<not> is_ws (last compositionZh)"
    by (simp_all add: compositionZh_def is_ws_def)
  have e: "asc ''Business Composition'' \<noteq> []" "\<not> is_ws (hd (asc ''Business Composition''))"
    "\<not> is_ws (last (asc ''Business Composition''))"
    by (simp_all add: asc_def is_ws_def)
  from assms z(1) e(1) have ne: "label \<noteq> []" by (auto dest: includes_nonempty)
  from assms have "includes_s (trim label) compositionZh
      \<or> includes_s (trim label) (asc ''Business Composition'')"
    by (simp only: includes_trim [OF z] includes_trim [OF e])
  with ne show ?thesis by (simp add: identifyMetric_def Let_def)
qed

text \<open>
  C4, as the claim states it, fails in its second half: the label made of the composition
  phrase and the keyword for operating revenue contains that keyword and no negative keyword
  of the revenue rule, and identifies as the composition marker, not as revenue.
\<close>

theorem identifyMetric_composition_counterexample:
  "includes_s labelCompositionRevenue kwOperatingRevenue
   \<and> \<not> list_ex (includes_s labelCompositionRevenue) (negative revenue_rule)
   \<and> identifyMetric METRIC_RULES labelCompositionRevenue = Some BusinessComposition
   \<and> identifyMetric METRIC_RULES labelCompositionRevenue \<noteq> Some Revenue"
proof -
  have a: "includes_s labelCompositionRevenue kwOperatingRevenue"
    by (simp add: labelCompositionRevenue_def compositionZh_def kwOperatingRevenue_def)
  have b: "\<not> list_ex (includes_s labelCompositionRevenue) (negative revenue_rule)"
    by (simp add: labelCompositionRevenue_def compositionZh_def kwOperatingRevenue_def
        revenue_rule_def asc_def)
  have "includes_s labelCompositionRevenue compositionZh"
    by (simp add: labelCompositionRevenue_def compositionZh_def kwOperatingRevenue_def)
  then have c: "identifyMetric METRIC_RULES labelCompositionRevenue = Some BusinessComposition"
    by (intro composition_first) simp
  from a b c show ?thesis by simp
qed

text \<open>
  C4, amended. A label that contains the keyword for operating revenue and the keyword for
  growth rate, and neither composition phrase, identifies as no metric: the negative keyword
  excludes revenue and every other rule is excluded as well. A label that contains the
  keyword for operating revenue, no negative keyword of the revenue rule and neither
  composition phrase identifies as revenue. A label with a composition phrase identifies as
  the composition marker, which is checked before the rules (\<open>composition_first\<close>).
\<close>

theorem identifyMetric_revenue:
  "(includes_s label kwOperatingRevenue \<and> includes_s label kwGrowthRate
      \<and> \<not> includes_s label compositionZh \<and> \<not> includes_s label (asc ''Business Composition'')
      \<longrightarrow> identifyMetric METRIC_RULES label = None)
   \<and> (includes_s label kwOperatingRevenue
      \<and> \<not> list_ex (includes_s label) (negative revenue_rule)
      \<and> \<not> includes_s label compositionZh \<and> \<not> includes_s label (asc ''Business Composition'')
      \<longrightarrow> identifyMetric METRIC_RULES label = Some Revenue)"
proof (intro conjI impI)
  assume a: "includes_s label kwOperatingRevenue \<and> includes_s label kwGrowthRate
      \<and> \<not> includes_s label compositionZh \<and> \<not> includes_s label (asc ''Business Composition'')"
  then have ne: "label \<noteq> []" by (auto dest: includes_nonempty simp: kwGrowthRate_def)
  from a have c: "\<not> includes_s (trim label) compositionZh"
    "\<not> includes_s (trim label) (asc ''Business Composition'')"
    by (blast dest: includes_trim_part)+
  have "includes_s kwGrowthRate [0x7387]" by (simp add: kwGrowthRate_def)
  with a have "includes_s label [0x7387]" by (blast intro: includes_trans)
  then have "includes_s (trim label) [0x7387]" by (simp add: includes_trim is_ws_def)
  then have "firstMatch METRIC_RULES (trim label) = None" by (rule rate_in_every_rule)
  with ne c show "identifyMetric METRIC_RULES label = None" by (simp add: identifyMetric_def)
next
  assume a: "includes_s label kwOperatingRevenue
      \<and> \<not> list_ex (includes_s label) (negative revenue_rule)
      \<and> \<not> includes_s label compositionZh \<and> \<not> includes_s label (asc ''Business Composition'')"
  then have ne: "label \<noteq> []" by (auto dest: includes_nonempty simp: kwOperatingRevenue_def)
  from a have c: "\<not> includes_s (trim label) compositionZh"
    "\<not> includes_s (trim label) (asc ''Business Composition'')"
    by (blast dest: includes_trim_part)+
  from a have "\<not> list_ex (includes_s label) (negative revenue_rule)" by simp
  then have n: "\<not> list_ex (includes_s (trim label)) (negative revenue_rule)"
    by (rule no_negative_after_trim)
  from a have "includes_s (trim label) kwOperatingRevenue"
    by (simp add: includes_trim kwOperatingRevenue_def is_ws_def)
  with n have "firstMatch METRIC_RULES (trim label) = Some Revenue" by (rule revenue_first)
  with ne c show "identifyMetric METRIC_RULES label = Some Revenue"
    by (simp add: identifyMetric_def)
qed

theorem identifyMetric_revenue_witness:
  "includes_s labelRevenueGrowth kwOperatingRevenue \<and> includes_s labelRevenueGrowth kwGrowthRate
   \<and> \<not> includes_s labelRevenueGrowth compositionZh
   \<and> \<not> includes_s labelRevenueGrowth (asc ''Business Composition'')
   \<and> identifyMetric METRIC_RULES labelRevenueGrowth = None
   \<and> includes_s labelRevenue kwOperatingRevenue
   \<and> \<not> list_ex (includes_s labelRevenue) (negative revenue_rule)
   \<and> \<not> includes_s labelRevenue compositionZh
   \<and> \<not> includes_s labelRevenue (asc ''Business Composition'')
   \<and> identifyMetric METRIC_RULES labelRevenue = Some Revenue"
proof -
  have g: "includes_s labelRevenueGrowth kwOperatingRevenue \<and> includes_s labelRevenueGrowth kwGrowthRate
      \<and> \<not> includes_s labelRevenueGrowth compositionZh
      \<and> \<not> includes_s labelRevenueGrowth (asc ''Business Composition'')"
    by (simp add: labelRevenueGrowth_def kwOperatingRevenue_def kwGrowthRate_def
        compositionZh_def asc_def)
  have r: "includes_s labelRevenue kwOperatingRevenue
      \<and> \<not> list_ex (includes_s labelRevenue) (negative revenue_rule)
      \<and> \<not> includes_s labelRevenue compositionZh
      \<and> \<not> includes_s labelRevenue (asc ''Business Composition'')"
    by (simp add: labelRevenue_def kwOperatingRevenue_def revenue_rule_def compositionZh_def
        asc_def)
  from identifyMetric_revenue [of labelRevenueGrowth, THEN conjunct1, THEN mp, OF g]
    identifyMetric_revenue [of labelRevenue, THEN conjunct2, THEN mp, OF r] g r
  show ?thesis by blast
qed

section \<open>Orientation detection\<close>

lemma detectFrom_index: "detectFrom table r rows = Some (s, i) \<Longrightarrow> r \<le> i"
proof (induction rows arbitrary: r)
  case Nil
  then show ?case by simp
next
  case (Cons row rest)
  show ?case
  proof (cases "detectFrom table r (row # rest) = detectFrom table (Suc r) rest")
    case True
    with Cons.prems have "detectFrom table (Suc r) rest = Some (s, i)" by simp
    from Cons.IH [OF this] show ?thesis by simp
  next
    case False
    with Cons.prems show ?thesis
      by (auto simp: Let_def split: if_splits)
  qed
qed

lemma keyword_count_headerMetrics:
  "length (filter (\<lambda>cell. identifyMetric METRIC_RULES cell \<noteq> None)
     (map (\<lambda>c. trim (toStr c)) headerMetrics)) = 2"
  by (simp add: headerMetrics_def str_defs METRIC_RULES_eval identifyMetric_def
      compositionZh_def)

lemma keyword_count_headerMetrics3:
  "length (filter (\<lambda>cell. identifyMetric METRIC_RULES cell \<noteq> None)
     (map (\<lambda>c. trim (toStr c)) headerMetrics3)) = 3"
  by (simp add: headerMetrics3_def str_defs METRIC_RULES_eval identifyMetric_def
      compositionZh_def)

lemma year_count_headerMetrics:
  "length (filter (\<lambda>cell. yearLike (trim (toStr cell))) headerMetrics) = 0"
  by (simp add: headerMetrics_def str_defs)

lemma year_count_headerMetrics3:
  "length (filter (\<lambda>cell. yearLike (trim (toStr cell))) headerMetrics3) = 0"
  by (simp add: headerMetrics3_def str_defs)

lemma year_count_headerYears:
  "length (filter (\<lambda>cell. yearLike (trim (toStr cell))) headerYears) = 3"
  by (simp add: headerYears_def str_defs)

lemma detectFrom_headerYears:
  "detectFrom METRIC_RULES r (headerYears # rest) = Some (HORIZONTAL, r)"
  by (simp only: detectFrom.simps Let_def year_count_headerYears) simp

lemma detectFrom_headerMetrics:
  "detectFrom METRIC_RULES r (headerMetrics # rest) = detectFrom METRIC_RULES (Suc r) rest"
  by (simp only: detectFrom.simps Let_def year_count_headerMetrics
      keyword_count_headerMetrics) simp

lemma detectFrom_headerMetrics3:
  "detectFrom METRIC_RULES r (headerMetrics3 # rest) = Some (VERTICAL, r)"
  by (simp only: detectFrom.simps Let_def year_count_headerMetrics3
      keyword_count_headerMetrics3) simp

text \<open>
  C1, as the claim states it, fails: a sheet whose first and only row is the year label,
  operating revenue, plain net profit and total assets is not detected as vertical.
\<close>

theorem detect_vertical_counterexample:
  "detectStrategy METRIC_RULES [headerMetrics] \<noteq> Some (VERTICAL, 0)"
  by (simp add: detectStrategy_def detectFrom_headerMetrics del: detectFrom.simps(2))

text \<open>
  C1, amended. A sheet whose first row is a subject label followed by 2020, 2021 and 2022 is
  detected as horizontal with that row as header, whatever rows follow. In the row of the
  year label, operating revenue, plain net profit and total assets only two cells identify
  as metrics (plain net profit matches no rule), so that row is never taken as a vertical
  header: detection passes on to the rows below, and a sheet of that row alone has no
  strategy. With net profit attributable to the parent in place of plain net profit three
  cells identify, and the sheet is detected as vertical with that row as header.
\<close>

theorem detect_orientation:
  "detectStrategy METRIC_RULES (headerYears # rest) = Some (HORIZONTAL, 0)
   \<and> length (filter (\<lambda>cell. identifyMetric METRIC_RULES cell \<noteq> None)
        (map (\<lambda>c. trim (toStr c)) headerMetrics)) = 2
   \<and> detectStrategy METRIC_RULES [headerMetrics] = None
   \<and> detectStrategy METRIC_RULES (headerMetrics # rest) \<noteq> Some (VERTICAL, 0)
   \<and> detectStrategy METRIC_RULES (headerMetrics3 # rest) = Some (VERTICAL, 0)"
proof -
  have h: "detectStrategy METRIC_RULES (headerYears # rest) = Some (HORIZONTAL, 0)"
    by (simp add: detectStrategy_def detectFrom_headerYears del: detectFrom.simps)
  have n: "length (filter (\<lambda>cell. identifyMetric METRIC_RULES cell \<noteq> None)
        (map (\<lambda>c. trim (toStr c)) headerMetrics)) = 2"
    by (rule keyword_count_headerMetrics)
  have e: "detectStrategy METRIC_RULES [headerMetrics] = None"
    by (simp add: detectStrategy_def detectFrom_headerMetrics del: detectFrom.simps(2))
  have v: "detectStrategy METRIC_RULES (headerMetrics # rest) \<noteq> Some (VERTICAL, 0)"
  proof
    assume "detectStrategy METRIC_RULES (headerMetrics # rest) = Some (VERTICAL, 0)"
    then have "detectFrom METRIC_RULES (Suc 0) (take 29 rest) = Some (VERTICAL, 0)"
      by (simp add: detectStrategy_def detectFrom_headerMetrics del: detectFrom.simps)
    from detectFrom_index [OF this] show False by simp
  qed
  have v3: "detectStrategy METRIC_RULES (headerMetrics3 # rest) = Some (VERTICAL, 0)"
    by (simp add: detectStrategy_def detectFrom_headerMetrics3 del: detectFrom.simps)
  from h n e v v3 show ?thesis by blast
qed

section \<open>Scenario A: years as columns\<close>

lemma processFiles_scenarioA: "processFiles METRIC_RULES [bookOf scenarioA] [] = Inr mapA"
  by (simp add: bookOf_def scenarioA_def mapA_def str_defs num_defs METRIC_RULES_eval
      extract_defs)

lemma finalize_mapA: "finalize mapA = resultA"
  by (simp add: mapA_def resultA_def str_defs num_defs final_defs newRecord_def)

text \<open>
  C6. The extraction of the single sheet of scenario A returns exactly two year records, in
  ascending order: 2021 with revenue 1000 and total assets 5000, 2022 with revenue 1200 and
  total assets 5500, each with net profit and equity defaulted to 0, no other metric and an
  empty composition.
\<close>

theorem scenarioA_result:
  "fst (extractFinancialData initial_state [bookOf scenarioA]) = Inr resultA"
  by (simp only: call_simps processFiles_scenarioA finalize_mapA)

section \<open>Scenario B: years as rows\<close>

lemma detectStrategy_scenarioB: "detectStrategy METRIC_RULES scenarioB = None"
  by (simp add: scenarioB_def str_defs METRIC_RULES_eval extract_defs)

lemma processFiles_scenarioB: "processFiles METRIC_RULES [bookOf scenarioB] [] = Inr []"
  by (simp add: bookOf_def processSheet_def detectStrategy_scenarioB)

lemma finalize_Nil: "finalize [] = []"
  by (simp add: final_defs)

lemma processFiles_scenarioB3: "processFiles METRIC_RULES [bookOf scenarioB3] [] = Inr mapB3"
  by (simp add: bookOf_def scenarioB3_def mapB3_def str_defs num_defs METRIC_RULES_eval
      extract_defs)

lemma finalize_mapB3: "finalize mapB3 = resultB3"
  by (simp add: mapB3_def resultB3_def str_defs num_defs final_defs newRecord_def)

text \<open>
  C2, as the claim states it, fails: the extraction of the sheet of scenario B does not
  return the records for 2020 and 2021.
\<close>

theorem scenarioB_counterexample:
  "fst (extractFinancialData initial_state [bookOf scenarioB]) \<noteq> Inr expectedB"
  by (simp only: call_simps processFiles_scenarioB finalize_Nil)
    (simp add: expectedB_def)

text \<open>
  C2, amended. The header row of scenario B has two metric cells, fewer than the three the
  detector asks of a vertical header, and no row has two year cells: no strategy is
  detected, the sheet is skipped and the extraction returns the empty sequence. With a third
  metric column (selling expenses, cells 10 and 12) the extraction returns the records for
  2020 and 2021, with revenue 800 and 900, net profit attributable to the parent 80 and 95,
  and total assets and equity defaulted to 0.
\<close>

theorem scenarioB_result:
  "detectStrategy METRIC_RULES scenarioB = None
   \<and> fst (extractFinancialData initial_state [bookOf scenarioB]) = Inr []
   \<and> fst (extractFinancialData initial_state [bookOf scenarioB3]) = Inr resultB3"
  by (simp only: call_simps processFiles_scenarioB finalize_Nil processFiles_scenarioB3
      finalize_mapB3 detectStrategy_scenarioB simp_thms)

section \<open>Invariants of the partial-record map\<close>

lemma match4_fourDigits: "match4 s = Some y \<Longrightarrow> fourDigits y"
  by (induction s rule: match4.induct) (auto simp: fourDigits_def split: if_splits)

lemma yearMatch_fourDigits: "yearMatch s = Some y \<Longrightarrow> fourDigits y"
  by (induction s rule: yearMatch.induct) (auto simp: fourDigits_def split: if_splits)

lemma headerYear_fourDigits: "headerYear c = Some y \<Longrightarrow> fourDigits y"
  by (auto simp: headerYear_def Let_def match4_fourDigits split: option.splits if_splits)

lemma in_map_filter: "y \<in> set (List.map_filter f xs) \<Longrightarrow> \<exists>x\<in>set xs. f x = Some y"
  by (auto simp: List.map_filter_def)

lemma yearColMap_fourDigits: "(i, y) \<in> set (yearColMap r) \<Longrightarrow> fourDigits y"
  unfolding yearColMap_def
  by (drule in_map_filter) (auto dest: headerYear_fourDigits)

text \<open>
  A property of records that holds of a new record for a four-digit year and that the
  assignments of the extractors keep holds of every record of the map.
\<close>

lemma ensureYear_records:
  assumes "list_all (\<lambda>e. P (snd e)) m" "P (newRecord y)"
  shows "list_all (\<lambda>e. P (snd e)) (ensureYear y m)"
  using assms by (simp add: ensureYear_def)

lemma updateYear_records:
  assumes "list_all (\<lambda>e. P (snd e)) m" "\<And>d. P d \<Longrightarrow> P (f d)"
  shows "list_all (\<lambda>e. P (snd e)) (updateYear y f m)"
  using assms by (auto simp: updateYear_def list_all_iff)

lemma horizontalRow_records:
  assumes new: "\<And>y. fourDigits y \<Longrightarrow> P (newRecord y)"
    and store: "\<And>k v d. P d \<Longrightarrow> P (storeValue k v d)"
    and ys: "\<forall>e\<in>set ycm. fourDigits (snd e)"
    and m: "list_all (\<lambda>e. P (snd e)) m"
  shows "list_all (\<lambda>e. P (snd e)) (horizontalRow table ycm r m)"
proof -
  have w: "list_all (\<lambda>e. P (snd e)) (fold (horizontalWrite k r) es m')"
    if "\<forall>e\<in>set es. fourDigits (snd e)" "list_all (\<lambda>e. P (snd e)) m'" for k es m'
    using that
  proof (induction es arbitrary: m')
    case Nil
    then show ?case by simp
  next
    case (Cons e es)
    obtain i y where e: "e = (i, y)" by (cases e)
    with Cons.prems have "fourDigits y" by simp
    with Cons.prems(2) have "list_all (\<lambda>e. P (snd e)) (horizontalWrite k r e m')"
      unfolding e horizontalWrite_def prod.case
      by (intro updateYear_records ensureYear_records new store)
    with Cons show ?case by simp
  qed
  show ?thesis
    using w [OF ys m] m by (simp add: horizontalRow_def split: option.splits)
qed

lemma fold_records:
  assumes "\<And>r m. list_all (\<lambda>e. P (snd e)) m \<Longrightarrow> list_all (\<lambda>e. P (snd e)) (step r m)"
    and "list_all (\<lambda>e. P (snd e)) m"
  shows "list_all (\<lambda>e. P (snd e)) (fold step rs m)"
  using assms(2) by (induction rs arbitrary: m) (simp_all add: assms(1))

lemma verticalRow_records:
  assumes new: "\<And>y. fourDigits y \<Longrightarrow> P (newRecord y)"
    and store: "\<And>k v d. P d \<Longrightarrow> P (storeValue k v d)"
    and comp: "\<And>b d. P d \<Longrightarrow> P (d\<lparr>businessComposition := b\<rparr>)"
    and m: "list_all (\<lambda>e. P (snd e)) m"
  shows "list_all (\<lambda>e. P (snd e)) (verticalRow mcm r m)"
proof (cases "yearMatch (trim (toStr (cell_at r 0)))")
  case None
  with m show ?thesis by (simp add: verticalRow_def)
next
  case (Some y)
  then have "fourDigits y" by (rule yearMatch_fourDigits)
  with m have e: "list_all (\<lambda>e. P (snd e)) (ensureYear y m)"
    by (intro ensureYear_records new)
  have "list_all (\<lambda>e. P (snd e)) (verticalWrite y r c m')"
    if "list_all (\<lambda>e. P (snd e)) m'" for c m'
    using that unfolding verticalWrite_def
    by (cases c) (auto simp: Let_def intro!: updateYear_records store comp)
  then have "list_all (\<lambda>e. P (snd e)) (fold (verticalWrite y r) mcm (ensureYear y m))"
    using e by (intro fold_records)
  with Some show ?thesis by (simp add: verticalRow_def)
qed

lemma processSheet_records:
  assumes new: "\<And>y. fourDigits y \<Longrightarrow> P (newRecord y)"
    and store: "\<And>k v d. P d \<Longrightarrow> P (storeValue k v d)"
    and comp: "\<And>b d. P d \<Longrightarrow> P (d\<lparr>businessComposition := b\<rparr>)"
    and m: "list_all (\<lambda>e. P (snd e)) m"
  shows "list_all (\<lambda>e. P (snd e)) (processSheet table rows m)"
proof -
  have h: "list_all (\<lambda>e. P (snd e)) (extractHorizontal table rows i m)" for i
  proof (cases "drop i rows")
    case Nil
    with m show ?thesis by (simp add: extractHorizontal_def)
  next
    case (Cons hr drs)
    have "\<forall>e\<in>set (yearColMap hr). fourDigits (snd e)"
      using yearColMap_fourDigits by auto
    then have "list_all (\<lambda>e. P (snd e)) (fold (horizontalRow table (yearColMap hr)) drs m)"
      using m by (intro fold_records horizontalRow_records new store)
    with Cons show ?thesis by (simp add: extractHorizontal_def)
  qed
  have v: "list_all (\<lambda>e. P (snd e)) (extractVertical table rows i m)" for i
  proof (cases "drop i rows")
    case Nil
    with m show ?thesis by (simp add: extractVertical_def)
  next
    case (Cons hr drs)
    have "list_all (\<lambda>e. P (snd e)) (fold (verticalRow (metricColMap table hr)) drs m)"
      using m by (intro fold_records verticalRow_records new store comp)
    with Cons show ?thesis by (simp add: extractVertical_def)
  qed
  show ?thesis
    using m h v by (auto simp: processSheet_def split: option.splits strategy.splits)
qed

lemma processFiles_records:
  assumes new: "\<And>y. fourDigits y \<Longrightarrow> P (newRecord y)"
    and store: "\<And>k v d. P d \<Longrightarrow> P (storeValue k v d)"
    and comp: "\<And>b d. P d \<Longrightarrow> P (d\<lparr>businessComposition := b\<rparr>)"
  shows "list_all (\<lambda>e. P (snd e)) m \<Longrightarrow> processFiles table files m = Inr m'
    \<Longrightarrow> list_all (\<lambda>e. P (snd e)) m'"
proof (induction files arbitrary: m)
  case Nil
  then show ?case by simp
next
  case (Cons f fs)
  from Cons.prems(2) obtain sheets where s: "file_read f = Inr sheets"
    and r: "processFiles table fs (fold (processSheet table) sheets m) = Inr m'"
    by (auto split: sum.splits)
  have "list_all (\<lambda>e. P (snd e)) (fold (processSheet table) sheets m)"
    using Cons.prems(1) by (intro fold_records processSheet_records new store comp)
  from Cons.IH [OF this r] show ?case .
qed

lemma year_storeValue: "year (storeValue k v d) = year d"
  by (cases k) (simp_all add: storeValue_def)

lemma processFiles_years:
  "processFiles table files [] = Inr m \<Longrightarrow> list_all (\<lambda>e. fourDigits (year (snd e))) m"
  by (rule processFiles_records [where P = "\<lambda>d. fourDigits (year d)" and m = "[]"])
    (simp_all add: newRecord_def year_storeValue)

section \<open>The finalizer\<close>

lemma finalize_alt:
  "finalize m = sortBy yearCompare (map fillDefaults (filter survives (objectValues m)))"
  by (simp add: finalize_def sortBy_def Let_def)

lemma year_fillDefaults: "year (fillDefaults d) = year d"
  by (simp add: fillDefaults_def Let_def)

lemma yearNumber_fillDefaults: "yearNumber (fillDefaults d) = yearNumber d"
  by (simp add: yearNumber_def year_fillDefaults)

lemma defaulted_fillDefaults: "defaulted d (fillDefaults d)"
  by (simp add: defaulted_def fillDefaults_def Let_def orZero_def split: option.splits)

lemma yearCompare_fillDefaults:
  "yearCompare (fillDefaults a) (fillDefaults b) = yearCompare a b"
  by (simp add: yearCompare_def year_fillDefaults)

lemma insertBy_map:
  assumes "\<And>a b. cmp (f a) (f b) = cmp a b"
  shows "insertBy cmp (f x) (map f ys) = map f (insertBy cmp x ys)"
  by (induction ys) (simp_all add: assms)

lemma sortBy_map:
  assumes "\<And>a b. cmp (f a) (f b) = cmp a b"
  shows "sortBy cmp (map f xs) = map f (sortBy cmp xs)"
  by (induction xs) (simp_all add: sortBy_def insertBy_map assms)

lemma mset_insertBy: "mset (insertBy cmp x ys) = add_mset x (mset ys)"
  by (induction ys) simp_all

lemma mset_sortBy: "mset (sortBy cmp xs) = mset xs"
  by (induction xs) (simp_all add: sortBy_def mset_insertBy)

lemma set_sortBy: "set (sortBy cmp xs) = set xs"
  using mset_sortBy [of cmp xs] by (metis set_mset_mset)

lemma mset_objectValues: "mset (objectValues m) = image_mset snd (mset m)"
proof -
  have p: "filter_mset (\<lambda>e. isArrayIndex (fst e)) (mset m)
          + filter_mset (\<lambda>e. \<not> isArrayIndex (fst e)) (mset m) = mset m"
    by (rule multiset_partition [symmetric])
  have "mset (objectValues m)
      = image_mset snd (filter_mset (\<lambda>e. isArrayIndex (fst e)) (mset m))
        + image_mset snd (filter_mset (\<lambda>e. \<not> isArrayIndex (fst e)) (mset m))"
    by (simp add: objectValues_def)
  also have "\<dots> = image_mset snd (filter_mset (\<lambda>e. isArrayIndex (fst e)) (mset m)
          + filter_mset (\<lambda>e. \<not> isArrayIndex (fst e)) (mset m))"
    by (simp only: image_mset_union)
  finally show ?thesis by (simp only: p)
qed

lemma parseInt_digits:
  assumes "k \<noteq> []" "list_all is_digit k"
  shows "parseInt k = Some (int (digits_val k))"
proof -
  from assms have h: "is_digit (hd k)" by (cases k) auto
  then have 1: "dropWhile is_ws k = k" using assms(1) digit_not_ws by (cases k) auto
  have 2: "splitSign k = (False, k)" using assms(1) h by (rule splitSign_digit)
  have 3: "takeWhile is_digit k = k" using assms(2) by (simp add: list_all_iff)
  show ?thesis using assms(1) by (simp add: parseInt_def 1 2 3)
qed

lemma parseInt_fourDigits: "fourDigits k \<Longrightarrow> parseInt k = Some (int (digits_val k))"
  by (rule parseInt_digits) (auto simp: fourDigits_def)

lemma yearCompare_numbers:
  "fourDigits (year a) \<Longrightarrow> fourDigits (year b) \<Longrightarrow> yearCompare a b = yearNumber a - yearNumber b"
  by (simp add: yearCompare_def yearNumber_def parseInt_fourDigits)

lemma set_insertBy: "set (insertBy cmp x ys) = insert x (set ys)"
  using mset_insertBy [of cmp x ys] by (metis set_mset_add_mset_insert set_mset_mset)

lemma sorted_insertBy:
  assumes "fourDigits (year x)" "\<forall>y\<in>set ys. fourDigits (year y)"
    "sorted (map yearNumber ys)"
  shows "sorted (map yearNumber (insertBy yearCompare x ys))"
  using assms
proof (induction ys)
  case Nil
  then show ?case by simp
next
  case (Cons y ys)
  then have c: "yearCompare x y = yearNumber x - yearNumber y"
    by (simp add: yearCompare_numbers)
  from Cons show ?case
    by (auto simp: c set_insertBy)
qed

lemma sorted_sortBy:
  "\<forall>y\<in>set xs. fourDigits (year y) \<Longrightarrow> sorted (map yearNumber (sortBy yearCompare xs))"
proof (induction xs)
  case Nil
  then show ?case by (simp add: sortBy_def)
next
  case (Cons x xs)
  then have "sorted (map yearNumber (sortBy yearCompare xs))" by simp
  with Cons.prems have "sorted (map yearNumber (insertBy yearCompare x (sortBy yearCompare xs)))"
    by (intro sorted_insertBy) (simp_all add: set_sortBy)
  then show ?case by (simp add: sortBy_def)
qed

lemma survives_hasCore: "fourDigits (year d) \<Longrightarrow> survives d = hasCore d"
  by (auto simp: survives_def hasCore_def fourDigits_def)

text \<open>
  C5. For a partial-record map whose years are four digits (every map the extractors build
  is, see \<open>processFiles_years\<close>): the result consists of exactly the records with at
  least one of revenue, net profit attributable to the parent and total assets defined, each
  with these three and equity set to 0 where absent and every other field unchanged (absent
  metrics stay absent); it is sorted ascending by numeric year; it is empty when no record
  survives; and the empty map, and a call with no files, give the empty sequence and no
  error.
\<close>

theorem finalize_postcondition:
  assumes v: "list_all (\<lambda>e. fourDigits (year (snd e))) m"
  shows "(\<exists>kept. mset kept = filter_mset hasCore (mset (map snd m))
            \<and> list_all2 defaulted kept (finalize m))
    \<and> sorted (map yearNumber (finalize m))
    \<and> (filter hasCore (map snd m) = [] \<longrightarrow> finalize m = [])
    \<and> finalize [] = []
    \<and> extractFinancialData st [] = (Inr [], st)"
proof -
  let ?xs = "filter survives (objectValues m)"
  let ?kept = "sortBy yearCompare ?xs"
  have fin: "finalize m = map fillDefaults ?kept"
    by (simp add: finalize_alt sortBy_map [of yearCompare fillDefaults] yearCompare_fillDefaults)
  from v have all: "\<forall>d\<in>#image_mset snd (mset m). fourDigits (year d)"
    by (auto simp: list_all_iff)
  have "mset ?kept = filter_mset survives (image_mset snd (mset m))"
    by (simp add: mset_sortBy mset_objectValues)
  also have "\<dots> = filter_mset hasCore (image_mset snd (mset m))"
    using all by (intro filter_mset_cong refl) (auto simp: survives_hasCore)
  finally have k: "mset ?kept = filter_mset hasCore (mset (map snd m))" by simp
  have d: "list_all2 defaulted ?kept (finalize m)"
    unfolding fin by (simp add: list_all2_map2 list_all2_same defaulted_fillDefaults)
  have years: "\<forall>y\<in>set ?xs. fourDigits (year y)"
  proof
    fix y assume "y \<in> set ?xs"
    then have "y \<in># mset (objectValues m)" by simp
    then have "y \<in># image_mset snd (mset m)" by (simp only: mset_objectValues)
    with all show "fourDigits (year y)" by blast
  qed
  have s: "sorted (map yearNumber (finalize m))"
    using sorted_sortBy [OF years]
    by (simp add: fin comp_def yearNumber_fillDefaults)
  have e: "filter hasCore (map snd m) = [] \<longrightarrow> finalize m = []"
  proof
    assume a: "filter hasCore (map snd m) = []"
    have h: "filter_mset hasCore (mset (map snd m)) = mset (filter hasCore (map snd m))"
      by (simp only: mset_filter)
    have "mset ?kept = {#}" by (simp only: k h a mset.simps)
    then have "?kept = []" by (simp only: mset_zero_iff)
    then show "finalize m = []" by (simp only: fin list.map)
  qed
  have n: "finalize [] = []" by (simp add: finalize_alt objectValues_def sortBy_def)
  have x: "extractFinancialData st [] = (Inr [], st)"
    by (simp add: extractFinancialData_def n)
  from k d s e n x show ?thesis by blast
qed

theorem finalize_postcondition_witness:
  "list_all (\<lambda>e. fourDigits (year (snd e))) mixedMap
   \<and> finalize mixedMap = mixedResult
   \<and> (\<exists>kept. mset kept = filter_mset hasCore (mset (map snd mixedMap))
          \<and> list_all2 defaulted kept mixedResult)
   \<and> sorted (map yearNumber mixedResult)"
proof -
  have v: "list_all (\<lambda>e. fourDigits (year (snd e))) mixedMap"
    by (simp add: mixedMap_def newRecord_def fourDigits_def asc_def is_digit_def)
  have f: "finalize mixedMap = mixedResult"
    by (simp add: mixedMap_def mixedResult_def str_defs num_defs final_defs newRecord_def)
  from finalize_postcondition [OF v] v f show ?thesis by simp
qed

section \<open>Capital expenditure\<close>

lemma processFiles_capexSheet: "processFiles METRIC_RULES [bookOf capexSheet] [] = Inr capexMap"
  by (simp add: bookOf_def capexSheet_def capexMap_def str_defs num_defs METRIC_RULES_eval
      extract_defs)

lemma finalize_capexMap: "finalize capexMap = capexResult"
  by (simp add: capexMap_def capexResult_def str_defs num_defs final_defs newRecord_def)

lemma Math_abs_range: "Math_abs v = NaN \<or> nonNegative (Math_abs v)"
  by (cases v) simp_all

lemma capexRange_storeValue: "capexRange d \<Longrightarrow> capexRange (storeValue k v d)"
  using Math_abs_range [of v] by (cases k) (auto simp: capexRange_def storeValue_def)

lemma processFiles_capexRange:
  "processFiles table files [] = Inr m \<Longrightarrow> list_all (\<lambda>e. capexRange (snd e)) m"
  by (rule processFiles_records [where P = capexRange and m = "[]"])
    (simp_all add: capexRange_storeValue, simp_all add: capexRange_def newRecord_def)

lemma set_finalize: "set (finalize m) \<subseteq> fillDefaults ` snd ` set m"
proof -
  have "set (objectValues m) = snd ` set m"
    using mset_objectValues [of m] by (metis set_image_mset set_mset_mset)
  then show ?thesis by (auto simp: finalize_alt set_sortBy)
qed

lemma capex_fillDefaults: "capex (fillDefaults d) = capex d"
  by (simp add: fillDefaults_def Let_def)

lemma capex_never_negative:
  assumes "fst (extractFinancialData st files) = Inr result" "d \<in> set result"
    "capex d = Some v"
  shows "v = NaN \<or> nonNegative v"
proof -
  from assms(1) obtain m where m: "processFiles (rule_table st) files [] = Inr m"
    and r: "result = finalize m"
    by (auto simp: extractFinancialData_def split: sum.splits)
  from assms(2) r set_finalize obtain e where e: "e \<in> set m" "d = fillDefaults (snd e)"
    by blast
  from processFiles_capexRange [OF m] e(1) have "capexRange (snd e)"
    by (simp add: list_all_iff)
  with e(2) assms(3) show ?thesis by (simp add: capexRange_def capex_fillDefaults)
qed

text \<open>
  C7. Both extractors store the absolute value of a capital-expenditure cell, so the sign
  of the cell never reaches the record: a capital expenditure in the result is never
  negative (\<open>capex_never_negative\<close>), and the cell -50 is stored as 50. A cell of a
  lone percent sign normalizes to NaN, and its absolute value, NaN, is stored: the record
  of 2021 in the result has a capital expenditure that is present and not non-negative.
\<close>

theorem capex_NaN_result:
  "fst (extractFinancialData initial_state [bookOf capexSheet]) = Inr capexResult
   \<and> map capex capexResult = [Some NaN, Some (Fin 50)]"
  by (simp only: call_simps processFiles_capexSheet finalize_capexMap)
    (simp add: capexResult_def newRecord_def)

section \<open>Vertical extractor: the composition column\<close>

lemma natToString_digits: "\<forall>c\<in>set (natToString n). is_digit c"
proof (induction n rule: natToString.induct)
  case (1 n)
  show ?case
  proof (cases "n < 10")
    case True
    then show ?thesis by (subst natToString.simps) (simp add: is_digit_def)
  next
    case False
    moreover have "n mod 10 < 10" by simp
    ultimately show ?thesis
      using 1 by (subst natToString.simps) (auto simp: is_digit_def)
  qed
qed

lemma fracDigits_digits: "0 \<le> f \<Longrightarrow> f < 1 \<Longrightarrow> \<forall>c\<in>set (fracDigits k f). is_digit c"
proof (induction k arbitrary: f)
  case 0
  then show ?case by simp
next
  case (Suc k)
  let ?d = "nat \<lfloor>f * 10\<rfloor>"
  from Suc.prems have lo: "0 \<le> \<lfloor>f * 10\<rfloor>" by simp
  from Suc.prems have "f * 10 < 10" by simp
  then have hi: "\<lfloor>f * 10\<rfloor> < 10" by (simp add: floor_less_iff)
  from lo have e: "of_nat ?d = (of_int \<lfloor>f * 10\<rfloor> :: rat)" by simp
  have r: "0 \<le> f * 10 - of_nat ?d" "f * 10 - of_nat ?d < 1"
    unfolding e by linarith+
  from lo hi have "?d \<le> 9" by linarith
  then have "is_digit (48 + ?d)" by (simp add: is_digit_def)
  with Suc.IH [OF r] show ?case by (simp add: Let_def)
qed

lemma ratToString_chars:
  assumes "0 \<le> q"
  shows "\<forall>c\<in>set (ratToString q). is_digit c \<or> c = 0x2E"
proof -
  let ?n = "nat \<lfloor>q\<rfloor>"
  from assms have "of_nat ?n = (of_int \<lfloor>q\<rfloor> :: rat)" by simp
  then have "0 \<le> q - of_nat ?n" "q - of_nat ?n < 1" by linarith+
  from fracDigits_digits [OF this] natToString_digits [of ?n]
  show ?thesis by (auto simp: ratToString_def Let_def)
qed

lemma digit_not_colon: "is_digit c \<Longrightarrow> \<not> is_colon c"
  by (auto simp: is_digit_def is_colon_def)

lemma numToString_no_colon: "\<forall>c\<in>set (numToString n). \<not> is_colon c"
proof (cases n)
  case (Fin q)
  have p: "\<not> is_colon 0x2E" "\<not> is_colon 0x2D" by (simp_all add: is_colon_def)
  show ?thesis
  proof (cases "q < 0")
    case True
    then have "0 \<le> - q" by simp
    from ratToString_chars [OF this] True Fin show ?thesis
      by (auto simp: p digit_not_colon)
  next
    case False
    then have "0 \<le> q" by simp
    from ratToString_chars [OF this] False Fin show ?thesis
      by (auto simp: p digit_not_colon)
  qed
qed (simp_all add: asc_def is_colon_def)

lemma toStr_no_colon: "(\<forall>s. v \<noteq> VStr s) \<Longrightarrow> \<forall>c\<in>set (toStr v). \<not> is_colon c"
  using numToString_no_colon by (cases v) (auto simp: asc_def is_colon_def)

lemma split_nonempty: "split sep s \<noteq> []"
  by (induction s) (auto split: list.splits)

lemma split_pieces: "p \<in> set (split sep s) \<Longrightarrow> set p \<subseteq> set s"
proof (induction s arbitrary: p)
  case Nil
  then show ?case by simp
next
  case (Cons c cs)
  show ?case
  proof (cases "sep c")
    case True
    with Cons show ?thesis by auto
  next
    case False
    obtain q qs where q: "split sep cs = q # qs"
      using split_nonempty [of sep cs] by (cases "split sep cs") auto
    with False Cons.prems have "p = c # q \<or> p \<in> set qs" by simp
    with q Cons.IH [of q] Cons.IH [of p] show ?thesis by auto
  qed
qed

lemma split_no_separator: "\<forall>c\<in>set s. \<not> sep c \<Longrightarrow> split sep s = [s]"
  by (induction s) auto

lemma parseFragment_no_colon: "\<forall>c\<in>set s. \<not> is_colon c \<Longrightarrow> parseFragment s = None"
  by (simp add: parseFragment_def split_no_separator)

lemma map_filter_all_None: "\<forall>x\<in>set xs. f x = None \<Longrightarrow> List.map_filter f xs = []"
  by (induction xs) auto

lemma parseBusinessComposition_no_colon:
  assumes "\<forall>c\<in>set s. \<not> is_colon c"
  shows "parseBusinessComposition s = []"
proof -
  have "parseFragment p = None" if "p \<in> set (split is_semicolon s)" for p
    using split_pieces [OF that] assms by (intro parseFragment_no_colon) auto
  then show ?thesis by (simp add: parseBusinessComposition_def map_filter_all_None)
qed

lemma parseBusinessComposition_not_string:
  assumes "cell = VStr [] \<or> (\<forall>s. cell \<noteq> VStr s)"
  shows "parseBusinessComposition (toStr cell) = []"
  using assms
proof
  assume "cell = VStr []"
  then show ?thesis by (simp add: parseBusinessComposition_def)
next
  assume "\<forall>s. cell \<noteq> VStr s"
  then have "\<forall>c\<in>set (toStr cell). \<not> is_colon c" by (rule toStr_no_colon)
  then show ?thesis by (rule parseBusinessComposition_no_colon)
qed

lemma map_of_updateYear: "map_of (updateYear y f m) y = map_option f (map_of m y)"
  by (induction m) (auto simp: updateYear_def)

lemma map_of_ensureYear: "map_of (ensureYear y m) y \<noteq> None"
  by (cases "map_of m y") (simp_all add: ensureYear_def map_add_def)

lemma map_of_verticalWrite:
  "map_of (verticalWrite y r entry m) y = map_option (cellEffect r entry) (map_of m y)"
  by (cases entry; cases "map_of m y")
    (simp_all add: verticalWrite_def cellEffect_def Let_def map_of_updateYear)

lemma composition_storeValue: "businessComposition (storeValue k v d) = businessComposition d"
  by (cases k) (simp_all add: storeValue_def)

lemma fold_verticalWrite_present:
  "map_of m y \<noteq> None \<Longrightarrow> map_of (fold (verticalWrite y r) es m) y \<noteq> None"
  by (induction es arbitrary: m) (simp_all add: map_of_verticalWrite)

lemma fold_verticalWrite_other:
  "BusinessComposition \<notin> snd ` set es \<Longrightarrow>
   map_option businessComposition (map_of (fold (verticalWrite y r) es m) y)
     = map_option businessComposition (map_of m y)"
proof (induction es arbitrary: m)
  case Nil
  then show ?case by simp
next
  case (Cons e es)
  then have "snd e \<noteq> BusinessComposition" by auto
  then have "map_option businessComposition (map_of (verticalWrite y r e m) y)
      = map_option businessComposition (map_of m y)"
    by (cases "map_of m y")
      (simp_all add: map_of_verticalWrite cellEffect_def composition_storeValue)
  with Cons show ?case by simp
qed

lemma verticalRow_composition:
  assumes y: "yearMatch (trim (toStr (cell_at r 0))) = Some y"
    and mcm: "mcm = pre @ (c, BusinessComposition) # post"
    and post: "BusinessComposition \<notin> snd ` set post"
  shows "\<exists>d. map_of (verticalRow mcm r m) y = Some d
    \<and> businessComposition d = parseBusinessComposition (toStr (cell_at r c))"
proof -
  let ?m1 = "fold (verticalWrite y r) pre (ensureYear y m)"
  let ?m2 = "verticalWrite y r (c, BusinessComposition) ?m1"
  have "map_of ?m1 y \<noteq> None" by (intro fold_verticalWrite_present map_of_ensureYear)
  then obtain d1 where d1: "map_of ?m1 y = Some d1" by auto
  then have 2: "map_option businessComposition (map_of ?m2 y)
      = Some (parseBusinessComposition (toStr (cell_at r c)))"
    by (simp add: map_of_verticalWrite cellEffect_def)
  have "verticalRow mcm r m = fold (verticalWrite y r) post ?m2"
    by (simp add: verticalRow_def y mcm)
  with fold_verticalWrite_other [OF post, of y r ?m2] 2
  have "map_option businessComposition (map_of (verticalRow mcm r m) y)
      = Some (parseBusinessComposition (toStr (cell_at r c)))" by simp
  then show ?thesis by auto
qed

lemma metricColMap_compHeader: "metricColMap METRIC_RULES compHeader = compCols"
  by (simp add: compHeader_def compCols_def str_defs METRIC_RULES_eval identifyMetric_def
      compositionZh_def metricColMap_def List.map_filter_simps enumerate_simps)

lemma detect_compSheet: "detectStrategy METRIC_RULES (compHeader # rest) = Some (VERTICAL, 0)"
proof -
  have y: "length (filter (\<lambda>cell. yearLike (trim (toStr cell))) compHeader) = 0"
    by (simp add: compHeader_def str_defs)
  have k: "length (filter (\<lambda>cell. identifyMetric METRIC_RULES cell \<noteq> None)
       (map (\<lambda>c. trim (toStr c)) compHeader)) = 3"
    by (simp add: compHeader_def str_defs METRIC_RULES_eval identifyMetric_def
        compositionZh_def)
  have "detectFrom METRIC_RULES 0 (compHeader # take 29 rest) = Some (VERTICAL, 0)"
    by (simp only: detectFrom.simps Let_def y k) simp
  then show ?thesis by (simp add: detectStrategy_def del: detectFrom.simps)
qed

lemma verticalRow_compRow1:
  "verticalRow compCols compRow1 [] = [(asc ''2020'', compRecord1)]"
  by (simp add: compCols_def compRow1_def compRecord1_def str_defs num_defs verticalRow_def
      verticalWrite_def cell_at_def ensureYear_def updateYear_def newRecord_def storeValue_def
      parseFragment_def parseBusinessComposition_def is_colon_def is_semicolon_def
      List.map_filter_simps)

lemma verticalRow_compRow2:
  "verticalRow compCols compRow2 [(asc ''2020'', compRecord1)] = [(asc ''2020'', compRecord2)]"
proof -
  have "parseBusinessComposition (toStr (VNum (Fin 7))) = []"
    by (rule parseBusinessComposition_not_string) simp
  then show ?thesis
    by (simp add: compCols_def compRow2_def compRecord1_def compRecord2_def str_defs num_defs
        verticalRow_def verticalWrite_def cell_at_def ensureYear_def updateYear_def
        newRecord_def storeValue_def del: toStr.simps(2))
qed

lemma processFiles_composition:
  "processFiles METRIC_RULES
     [\<lparr>file_name = asc ''book.xlsx'',
       file_read = Inr [[compHeader, compRow1], [compHeader, compRow2]]\<rparr>] []
   = Inr [(asc ''2020'', compRecord2)]"
  by (simp add: processSheet_def detect_compSheet extractVertical_def metricColMap_compHeader
      verticalRow_compRow1 verticalRow_compRow2)

text \<open>
  C10. In the vertical extractor, the assignment for a column mapped to the composition
  marker replaces the composition list of the row's year by the parse of that cell,
  whatever the list was. After a data row with a leading four-digit year, the list of that
  year is the parse of the cell of the last composition column of the header. The parse of
  an empty cell and of a cell that is not a string (a number, a boolean, a missing cell) is
  the empty list, so such a cell erases what earlier rows or sheets collected.
\<close>

theorem composition_replaced:
  "(map_of m y = Some d \<longrightarrow>
      map_of (verticalWrite y r (c, BusinessComposition) m) y
        = Some (d\<lparr>businessComposition := parseBusinessComposition (toStr (cell_at r c))\<rparr>))
   \<and> (yearMatch (trim (toStr (cell_at r 0))) = Some y
        \<and> mcm = pre @ (c, BusinessComposition) # post
        \<and> BusinessComposition \<notin> snd ` set post \<longrightarrow>
      (\<exists>d'. map_of (verticalRow mcm r m) y = Some d'
         \<and> businessComposition d' = parseBusinessComposition (toStr (cell_at r c))))
   \<and> (cell_at r c = VStr [] \<or> (\<forall>s. cell_at r c \<noteq> VStr s) \<longrightarrow>
      parseBusinessComposition (toStr (cell_at r c)) = [])"
proof (intro conjI impI)
  assume "map_of m y = Some d"
  then show "map_of (verticalWrite y r (c, BusinessComposition) m) y
      = Some (d\<lparr>businessComposition := parseBusinessComposition (toStr (cell_at r c))\<rparr>)"
    by (simp add: map_of_verticalWrite cellEffect_def)
next
  assume "yearMatch (trim (toStr (cell_at r 0))) = Some y
        \<and> mcm = pre @ (c, BusinessComposition) # post
        \<and> BusinessComposition \<notin> snd ` set post"
  then show "\<exists>d'. map_of (verticalRow mcm r m) y = Some d'
         \<and> businessComposition d' = parseBusinessComposition (toStr (cell_at r c))"
    by (blast intro: verticalRow_composition)
next
  assume "cell_at r c = VStr [] \<or> (\<forall>s. cell_at r c \<noteq> VStr s)"
  then show "parseBusinessComposition (toStr (cell_at r c)) = []"
    by (rule parseBusinessComposition_not_string)
qed

theorem composition_replaced_witness:
  "map_of [(asc ''2020'', compRecord1)] (asc ''2020'') = Some compRecord1
   \<and> businessComposition compRecord1
       = [\<lparr>name = asc ''A'', val = Fin 100\<rparr>, \<lparr>name = asc ''B'', val = Fin 200\<rparr>]
   \<and> cell_at compRow2 3 = VNum (Fin 7)
   \<and> map_of (verticalWrite (asc ''2020'') compRow2 (3, BusinessComposition)
         [(asc ''2020'', compRecord1)]) (asc ''2020'')
       = Some (compRecord1\<lparr>businessComposition := []\<rparr>)
   \<and> (\<exists>d'. map_of (verticalRow compCols compRow2 [(asc ''2020'', compRecord1)]) (asc ''2020'')
           = Some d' \<and> businessComposition d' = [])
   \<and> processFiles METRIC_RULES
        [\<lparr>file_name = asc ''book.xlsx'',
          file_read = Inr [[compHeader, compRow1], [compHeader, compRow2]]\<rparr>] []
       = Inr [(asc ''2020'', compRecord2)]
   \<and> businessComposition compRecord2 = []"
proof -
  let ?m = "[(asc ''2020'', compRecord1)]"
  have m: "map_of ?m (asc ''2020'') = Some compRecord1" by simp
  have b: "businessComposition compRecord1
       = [\<lparr>name = asc ''A'', val = Fin 100\<rparr>, \<lparr>name = asc ''B'', val = Fin 200\<rparr>]"
    by (simp add: compRecord1_def)
  have c: "cell_at compRow2 3 = VNum (Fin 7)" by (simp add: compRow2_def cell_at_def)
  then have n: "cell_at compRow2 3 = VStr [] \<or> (\<forall>s. cell_at compRow2 3 \<noteq> VStr s)" by simp
  have y: "yearMatch (trim (toStr (cell_at compRow2 0))) = Some (asc ''2020'')
      \<and> compCols = [(1, Revenue), (2, TotalAssets)] @ (3, BusinessComposition) # []
      \<and> BusinessComposition \<notin> snd ` set []"
    by (simp add: compRow2_def compCols_def cell_at_def str_defs)
  note t = composition_replaced [of ?m "asc ''2020''" compRecord1 compRow2 3 compCols
      "[(1, Revenue), (2, TotalAssets)]" "[]"]
  from t [THEN conjunct2, THEN conjunct2, THEN mp, OF n]
  have e: "parseBusinessComposition (toStr (cell_at compRow2 3)) = []" .
  from t [THEN conjunct1, THEN mp, OF m]
  have 1: "map_of (verticalWrite (asc ''2020'') compRow2 (3, BusinessComposition) ?m)
      (asc ''2020'') = Some (compRecord1\<lparr>businessComposition := []\<rparr>)"
    by (simp only: e)
  from t [THEN conjunct2, THEN conjunct1, THEN mp, OF y]
  have 2: "\<exists>d'. map_of (verticalRow compCols compRow2 ?m) (asc ''2020'') = Some d'
      \<and> businessComposition d' = []"
    by (simp only: e)
  have 3: "businessComposition compRecord2 = []" by (simp add: compRecord2_def newRecord_def)
  show ?thesis by (intro conjI m b c 1 2 processFiles_composition 3)
qed

end
